theory Spec2Isabelle
  imports Main "HOL-Library.Word"
begin

unbundle bit_operations_syntax

section \<open>The file system B-tree node reader of libfsapfs\<close>

text \<open>
  A shallow embedding of \<^verbatim>\<open>libfsapfs_file_system_btree.c\<close>. The C integers are
  words of their declared width: \<^verbatim>\<open>uint16_t\<close> is \<open>16 word\<close>, \<^verbatim>\<open>uint64_t\<close> is
  \<open>64 word\<close>, and \<^verbatim>\<open>size_t\<close> is taken as 64 bits wide, so that \<^verbatim>\<open>SSIZE_MAX\<close> is
  \<open>2 ^ 63 - 1\<close>. The buffer \<^verbatim>\<open>data\<close> is a list of bytes, \<^verbatim>\<open>data_size\<close> is the
  separate argument of the C function.
\<close>

type_synonym byte = "8 word"
type_synonym uint16_t = "16 word"
type_synonym uint32_t = "32 word"
type_synonym uint64_t = "64 word"
type_synonym size_t = "64 word"

definition SSIZE_MAX :: size_t where
  "SSIZE_MAX = 0x7FFFFFFFFFFFFFFF"

subsection \<open>Errors\<close>

text \<open>
  The pairs of error domain and error code that the functions of the file hand to
  \<^verbatim>\<open>libcerror_error_set\<close>. A function that fails returns -1 with the code it set last.
\<close>

datatype error_code =
    ARGUMENT_ERROR_INVALID_VALUE
  | RUNTIME_ERROR_VALUE_ALREADY_SET
  | RUNTIME_ERROR_VALUE_MISSING
  | RUNTIME_ERROR_VALUE_OUT_OF_BOUNDS
  | RUNTIME_ERROR_UNSUPPORTED_VALUE
  | RUNTIME_ERROR_INITIALIZE_FAILED
  | RUNTIME_ERROR_FINALIZE_FAILED
  | MEMORY_ERROR_INSUFFICIENT
  | IO_ERROR_READ_FAILED

subsection \<open>Reading the buffer\<close>

text \<open>
  Every place where the function dereferences \<^verbatim>\<open>data\<close> is recorded as an access:
  the region it belongs to, the offset of its first byte and its number of bytes.
\<close>

datatype region =
    DebugDump | ObjectField | HeaderSlice | FooterSlice | TocRecord | KeyData | ValueData

datatype access = Read region nat nat

fun in_bounds :: "nat \<Rightarrow> access \<Rightarrow> bool" where
  "in_bounds n (Read r off len) = (off + len \<le> n)"

fun region_of :: "access \<Rightarrow> region" where
  "region_of (Read r off len) = r"

text \<open>
  Modelled from the spec: the macros of \<^verbatim>\<open>byte_stream.h\<close> come from outside
  this file; all fields are little-endian.
\<close>

definition byte_stream_copy_to_uint16_little_endian :: "byte list \<Rightarrow> nat \<Rightarrow> uint16_t" where
  "byte_stream_copy_to_uint16_little_endian data off =
     push_bit 8 (ucast (data ! (off + 1))) OR ucast (data ! off)"

definition byte_stream_copy_to_uint32_little_endian :: "byte list \<Rightarrow> nat \<Rightarrow> uint32_t" where
  "byte_stream_copy_to_uint32_little_endian data off =
     push_bit 8 (push_bit 8 (push_bit 8 (ucast (data ! (off + 3))) OR ucast (data ! (off + 2)))
       OR ucast (data ! (off + 1))) OR ucast (data ! off)"

definition byte_stream_copy_to_uint64_little_endian :: "byte list \<Rightarrow> nat \<Rightarrow> uint64_t" where
  "byte_stream_copy_to_uint64_little_endian data off =
     push_bit 32 (ucast (byte_stream_copy_to_uint32_little_endian data (off + 4)))
       OR ucast (byte_stream_copy_to_uint32_little_endian data off)"

subsection \<open>The decoded B-tree header and footer\<close>

text \<open>
  Modelled from the spec: the declarations of \<^verbatim>\<open>libfsapfs_btree_header_t\<close> and
  \<^verbatim>\<open>libfsapfs_btree_footer_t\<close> are in other files of the library. The fields and
  their widths are those of the data model of the spec.
\<close>

record btree_header =
  flags :: uint16_t
  level :: uint16_t
  number_of_keys :: uint32_t
  entries_data_offset :: uint16_t
  entries_data_size :: uint16_t
  unused_data_offset :: uint16_t
  unused_data_size :: uint16_t

record btree_footer =
  key_size :: uint16_t
  value_size :: uint16_t
  number_of_entries :: uint64_t

text \<open>
  What the function takes from the rest of the library: the sizes of the on-disk
  structures \<^verbatim>\<open>fsapfs_btree_header_t\<close> and \<^verbatim>\<open>fsapfs_btree_footer_t\<close>, the
  decoders \<^verbatim>\<open>libfsapfs_btree_header_read_data\<close> and
  \<^verbatim>\<open>libfsapfs_btree_footer_read_data\<close> (each is handed exactly the slice of the
  buffer and fails with \<open>None\<close>), whether the two \<^verbatim>\<open>_initialize\<close> calls get
  their memory, and whether the build has \<^verbatim>\<open>HAVE_DEBUG_OUTPUT\<close> with
  \<^verbatim>\<open>libcnotify_verbose\<close> set.
\<close>

record library =
  sizeof_btree_header :: size_t
  sizeof_btree_footer :: size_t
  btree_header_initialize_ok :: bool
  btree_header_read_data :: "byte list \<Rightarrow> btree_header option"
  btree_footer_initialize_ok :: bool
  btree_footer_read_data :: "byte list \<Rightarrow> btree_footer option"
  debug_output :: bool

text \<open>
  Modelled from the spec: \<^verbatim>\<open>fsapfs_object_t\<close> is the 32-byte object header,
  checksum (8), identifier (8), version (8), type (4), subtype (4), and
  \<^verbatim>\<open>fsapfs_btree_variable_size_entry_t\<close> is the 8-byte record of the table of
  contents: key offset (2), key size (2), value offset (2), value size (2).
\<close>

definition sizeof_object :: size_t where
  "sizeof_object = 32"

definition sizeof_btree_variable_size_entry :: size_t where
  "sizeof_btree_variable_size_entry = 8"

definition slice :: "byte list \<Rightarrow> nat \<Rightarrow> nat \<Rightarrow> byte list" where
  "slice data off len = take len (drop off data)"

subsection \<open>The loop over the table of contents\<close>

text \<open>
  Line 672: \<^verbatim>\<open>key_data_offset += entries_data_offset + btree_header->entries_data_size\<close>,
  all three of type \<^verbatim>\<open>uint16_t\<close>; line 699:
  \<^verbatim>\<open>value_data_offset = footer_offset - value_data_offset\<close>, likewise. The result of
  the \<^verbatim>\<open>int\<close> arithmetic is stored into a \<^verbatim>\<open>uint16_t\<close>, that is taken modulo
  \<open>2 ^ 16\<close>.
\<close>

definition key_block_offset :: "uint16_t \<Rightarrow> uint16_t \<Rightarrow> uint16_t \<Rightarrow> uint16_t" where
  "key_block_offset key_data_offset entries_offset entries_size =
     key_data_offset + (entries_offset + entries_size)"

definition value_block_offset :: "uint16_t \<Rightarrow> uint16_t \<Rightarrow> uint16_t" where
  "value_block_offset footer_offset value_data_offset = footer_offset - value_data_offset"

text \<open>
  The bounds check of lines 674-675 and 701-702, on the values converted to
  \<^verbatim>\<open>size_t\<close>.
\<close>

definition out_of_bounds :: "size_t \<Rightarrow> uint16_t \<Rightarrow> uint16_t \<Rightarrow> bool" where
  "out_of_bounds data_size off sz =
     (ucast off > data_size \<or> ucast sz > data_size - ucast off)"

text \<open>
  One pass through the body of the loop (lines 618-725) for the record at
  \<^verbatim>\<open>data_offset\<close>: the error it stops with, if any, and its accesses.
\<close>

definition read_entry ::
  "bool \<Rightarrow> byte list \<Rightarrow> size_t \<Rightarrow> uint16_t \<Rightarrow> uint16_t \<Rightarrow> uint16_t \<Rightarrow> size_t
     \<Rightarrow> (error_code + unit) \<times> access list" where
  "read_entry debug data data_size entries_offset entries_size footer_offset data_offset =
     (let key_data_offset = byte_stream_copy_to_uint16_little_endian data (unat data_offset);
          key_data_size = byte_stream_copy_to_uint16_little_endian data (unat data_offset + 2);
          value_data_offset = byte_stream_copy_to_uint16_little_endian data (unat data_offset + 4);
          value_data_size = byte_stream_copy_to_uint16_little_endian data (unat data_offset + 6);
          record_read = Read TocRecord (unat data_offset) 8;
          key_data_offset = key_block_offset key_data_offset entries_offset entries_size
      in if out_of_bounds data_size key_data_offset key_data_size
         then (Inl RUNTIME_ERROR_VALUE_OUT_OF_BOUNDS, [record_read])
         else
           let key_read = (if debug then [Read KeyData (unat key_data_offset) (unat key_data_size)] else []);
               value_data_offset = value_block_offset footer_offset value_data_offset
           in if out_of_bounds data_size value_data_offset value_data_size
              then (Inl RUNTIME_ERROR_VALUE_OUT_OF_BOUNDS, record_read # key_read)
              else
                (Inr (), record_read # key_read @
                   (if debug then [Read ValueData (unat value_data_offset) (unat value_data_size)] else [])))"

text \<open>
  The loop of lines 614-726: \<^verbatim>\<open>map_entry_index\<close> runs from its start value up to
  \<^verbatim>\<open>number_of_entries\<close>, \<^verbatim>\<open>data_offset\<close> advances by the size of a record.
\<close>

function read_entries ::
  "bool \<Rightarrow> byte list \<Rightarrow> size_t \<Rightarrow> uint16_t \<Rightarrow> uint16_t \<Rightarrow> uint16_t \<Rightarrow> uint64_t
     \<Rightarrow> uint64_t \<Rightarrow> size_t \<Rightarrow> (error_code + unit) \<times> access list" where
  "read_entries debug data data_size entries_offset entries_size footer_offset n map_entry_index data_offset =
     (if map_entry_index < n
      then (case read_entry debug data data_size entries_offset entries_size footer_offset data_offset of
              (Inl e, tr) \<Rightarrow> (Inl e, tr)
            | (Inr u, tr) \<Rightarrow>
                (case read_entries debug data data_size entries_offset entries_size footer_offset n
                        (map_entry_index + 1) (data_offset + sizeof_btree_variable_size_entry) of
                   (r, tr') \<Rightarrow> (r, tr @ tr')))
      else (Inr (), []))"
  by pat_completeness auto
termination
proof (relation "measure (\<lambda>(debug, data, data_size, eo, es, fo, n, i, off). unat n - unat i)")
  show "wf (measure (\<lambda>(debug, data, data_size, eo, es, fo, n, i, off). unat n - unat i))"
    by simp
next
  fix debug :: bool and data :: "byte list" and data_size :: size_t
    and eo es fo :: uint16_t and n i :: uint64_t and off :: size_t
    and x :: "(error_code + unit) \<times> access list" and a b u
  assume "i < n"
  then have "unat (i + 1) = unat i + 1" and "unat i < unat n"
    by unat_arith+
  then show "((debug, data, data_size, eo, es, fo, n, i + 1, off + sizeof_btree_variable_size_entry),
              (debug, data, data_size, eo, es, fo, n, i, off))
             \<in> measure (\<lambda>(debug, data, data_size, eo, es, fo, n, i, off). unat n - unat i)"
    by simp
qed

declare read_entries.simps [simp del]

subsection \<open>Intermediate allocations\<close>

text \<open>
  Modelled from the spec: the \<^verbatim>\<open>_initialize\<close> and \<^verbatim>\<open>_free\<close> functions of the
  B-tree header and footer are in other files of the library. The heap is the number of
  live intermediate allocations. A successful \<^verbatim>\<open>_initialize\<close> makes one
  allocation; \<^verbatim>\<open>_free\<close> releases it, sets the pointer to \<^verbatim>\<open>NULL\<close> and returns 1,
  as \<^verbatim>\<open>libfsapfs_file_system_btree_free\<close> does (lines 114-139), so that the two
  \<^verbatim>\<open>_free\<close> calls of lines 727-752 do not fail.
\<close>

definition allocate :: "nat \<Rightarrow> nat" where
  "allocate live = Suc live"

definition libfsapfs_btree_header_free :: "nat \<Rightarrow> nat" where
  "libfsapfs_btree_header_free live = live - 1"

definition libfsapfs_btree_footer_free :: "nat \<Rightarrow> nat" where
  "libfsapfs_btree_footer_free live = live - 1"

text \<open>
  The label \<^verbatim>\<open>on_error\<close> (lines 755-768): the footer, then the header, each freed
  when its pointer is not \<^verbatim>\<open>NULL\<close>.
\<close>

definition on_error :: "nat \<Rightarrow> bool \<Rightarrow> bool \<Rightarrow> nat" where
  "on_error live btree_footer_set btree_header_set =
     (let live = (if btree_footer_set then libfsapfs_btree_footer_free live else live)
      in if btree_header_set then libfsapfs_btree_header_free live else live)"

subsection \<open>The outcome of a call\<close>

text \<open>
  \<open>result\<close> is \<open>Inr ()\<close> for the return value 1 and \<open>Inl\<close> of the error code for -1;
  \<open>accesses\<close> are the reads of \<^verbatim>\<open>data\<close> in the order they happen; \<open>btree\<close> is
  the structure behind \<^verbatim>\<open>file_system_btree\<close> at the return (its declaration is not
  in this file: it is kept as its bytes); \<open>live\<close> is the heap at the
  return.
\<close>

record outcome =
  result :: "error_code + unit"
  accesses :: "access list"
  btree :: "byte list option"
  live :: nat

definition prepend :: "access list \<Rightarrow> outcome \<Rightarrow> outcome" where
  "prepend tr oc = oc\<lparr>accesses := tr @ accesses oc\<rparr>"

subsection \<open>libfsapfs_file_system_btree_read_data, stage by stage\<close>

text \<open>
  Lines 609-753: the offsets of the loop, the loop, and the two \<^verbatim>\<open>_free\<close> calls of
  the successful return.
\<close>

definition resolve_entries ::
  "library \<Rightarrow> byte list option \<Rightarrow> byte list \<Rightarrow> size_t \<Rightarrow> nat \<Rightarrow> btree_header \<Rightarrow> btree_footer
     \<Rightarrow> outcome" where
  "resolve_entries lib file_system_btree data data_size heap h f =
     (let data_offset = sizeof_object + sizeof_btree_header lib + ucast (entries_data_offset h);
          entries_offset = entries_data_offset h + ucast (sizeof_object + sizeof_btree_header lib);
          footer_offset = ucast (data_size - sizeof_btree_footer lib)
      in case read_entries (debug_output lib) data data_size entries_offset (entries_data_size h)
                footer_offset (number_of_entries f) 0 data_offset of
           (Inl e, tr) \<Rightarrow>
             \<lparr>result = Inl e, accesses = tr, btree = file_system_btree,
              live = on_error heap True True\<rparr>
         | (Inr u, tr) \<Rightarrow>
             \<lparr>result = Inr (), accesses = tr, btree = file_system_btree,
              live = libfsapfs_btree_header_free (libfsapfs_btree_footer_free heap)\<rparr>)"

text \<open>Lines 548-608: the footer is allocated, decoded and checked.\<close>

definition read_footer ::
  "library \<Rightarrow> byte list option \<Rightarrow> byte list \<Rightarrow> size_t \<Rightarrow> nat \<Rightarrow> btree_header \<Rightarrow> outcome" where
  "read_footer lib file_system_btree data data_size heap h =
     (if \<not> btree_footer_initialize_ok lib
      then \<lparr>result = Inl RUNTIME_ERROR_INITIALIZE_FAILED, accesses = [],
            btree = file_system_btree, live = on_error heap False True\<rparr>
      else
        let heap = allocate heap;
            footer_start = unat (data_size - sizeof_btree_footer lib);
            footer_read = Read FooterSlice footer_start (unat (sizeof_btree_footer lib))
        in case btree_footer_read_data lib (slice data footer_start (unat (sizeof_btree_footer lib))) of
             None \<Rightarrow>
               \<lparr>result = Inl IO_ERROR_READ_FAILED, accesses = [footer_read],
                btree = file_system_btree, live = on_error heap True True\<rparr>
           | Some f \<Rightarrow>
               if key_size f \<noteq> 0
               then \<lparr>result = Inl RUNTIME_ERROR_VALUE_OUT_OF_BOUNDS, accesses = [footer_read],
                     btree = file_system_btree, live = on_error heap True True\<rparr>
               else if value_size f \<noteq> 0
               then \<lparr>result = Inl RUNTIME_ERROR_VALUE_OUT_OF_BOUNDS, accesses = [footer_read],
                     btree = file_system_btree, live = on_error heap True True\<rparr>
               else if number_of_entries f >
                         ucast ((ucast (entries_data_size h) :: size_t) div sizeof_btree_variable_size_entry)
               then \<lparr>result = Inl RUNTIME_ERROR_VALUE_OUT_OF_BOUNDS, accesses = [footer_read],
                     btree = file_system_btree, live = on_error heap True True\<rparr>
               else prepend [footer_read]
                      (resolve_entries lib file_system_btree data data_size heap h f))"

text \<open>
  Lines 494-545: the accounting chain on \<^verbatim>\<open>remaining_data_size\<close>. \<open>None\<close> is the
  jump to \<^verbatim>\<open>on_error\<close>, \<open>Some\<close> holds what remains after the last subtraction
  (line 533).
\<close>

definition accounting_chain :: "library \<Rightarrow> size_t \<Rightarrow> btree_header \<Rightarrow> size_t option" where
  "accounting_chain lib data_size h =
     (let data_offset = sizeof_object + sizeof_btree_header lib;
          remaining_data_size = data_size - data_offset - sizeof_btree_footer lib
      in if ucast (entries_data_offset h) \<ge> remaining_data_size then None
         else
           let remaining_data_size = remaining_data_size - ucast (entries_data_offset h)
           in if ucast (entries_data_size h) > remaining_data_size then None
              else
                let remaining_data_size = remaining_data_size - ucast (entries_data_size h)
                in if ucast (unused_data_offset h) \<ge> remaining_data_size then None
                   else
                     let remaining_data_size = remaining_data_size - ucast (unused_data_offset h)
                     in if ucast (unused_data_size h) > remaining_data_size then None
                        else Some remaining_data_size)"

text \<open>Lines 481-545, then the footer.\<close>

definition check_layout ::
  "library \<Rightarrow> byte list option \<Rightarrow> byte list \<Rightarrow> size_t \<Rightarrow> nat \<Rightarrow> btree_header \<Rightarrow> outcome" where
  "check_layout lib file_system_btree data data_size heap h =
     (let data_offset = sizeof_object + sizeof_btree_header lib
      in if data_size < data_offset + sizeof_btree_footer lib
         then \<lparr>result = Inl RUNTIME_ERROR_VALUE_OUT_OF_BOUNDS, accesses = [],
               btree = file_system_btree, live = on_error heap False True\<rparr>
         else case accounting_chain lib data_size h of
                None \<Rightarrow>
                  \<lparr>result = Inl RUNTIME_ERROR_VALUE_OUT_OF_BOUNDS, accesses = [],
                   btree = file_system_btree, live = on_error heap False True\<rparr>
              | Some remaining_data_size \<Rightarrow>
                  read_footer lib file_system_btree data data_size heap h)"

text \<open>Lines 428-480: the header is allocated, decoded and its flags are checked.\<close>

definition read_header ::
  "library \<Rightarrow> byte list option \<Rightarrow> byte list \<Rightarrow> size_t \<Rightarrow> nat \<Rightarrow> outcome" where
  "read_header lib file_system_btree data data_size heap =
     (let data_offset = sizeof_object
      in if data_size < data_offset + sizeof_btree_header lib
         then \<lparr>result = Inl RUNTIME_ERROR_VALUE_OUT_OF_BOUNDS, accesses = [],
               btree = file_system_btree, live = on_error heap False False\<rparr>
         else if \<not> btree_header_initialize_ok lib
         then \<lparr>result = Inl RUNTIME_ERROR_INITIALIZE_FAILED, accesses = [],
               btree = file_system_btree, live = on_error heap False False\<rparr>
         else
           let heap = allocate heap;
               header_read = Read HeaderSlice (unat data_offset) (unat (sizeof_btree_header lib))
           in case btree_header_read_data lib
                     (slice data (unat data_offset) (unat (sizeof_btree_header lib))) of
                None \<Rightarrow>
                  \<lparr>result = Inl IO_ERROR_READ_FAILED, accesses = [header_read],
                   btree = file_system_btree, live = on_error heap False True\<rparr>
              | Some h \<Rightarrow>
                  if flags h \<noteq> 0x0003
                  then \<lparr>result = Inl RUNTIME_ERROR_UNSUPPORTED_VALUE, accesses = [header_read],
                        btree = file_system_btree, live = on_error heap False True\<rparr>
                  else prepend [header_read]
                         (check_layout lib file_system_btree data data_size heap h))"

text \<open>
  Lines 330-426: the type and the subtype of the object header, at the offsets 24 and
  28 of the buffer; with debug output, the dumps of the buffer and of the object header
  before them and the prints of the other three fields after them.
\<close>

definition read_object ::
  "library \<Rightarrow> byte list option \<Rightarrow> byte list \<Rightarrow> size_t \<Rightarrow> nat \<Rightarrow> outcome" where
  "read_object lib file_system_btree data data_size heap =
     (let dumps = (if debug_output lib
                   then [Read DebugDump 0 (unat data_size), Read DebugDump 0 (unat sizeof_object)]
                   else []);
          object_type = byte_stream_copy_to_uint32_little_endian data 24;
          type_read = Read ObjectField 24 4
      in if object_type \<noteq> 0x00000002
         then \<lparr>result = Inl RUNTIME_ERROR_UNSUPPORTED_VALUE, accesses = dumps @ [type_read],
               btree = file_system_btree, live = on_error heap False False\<rparr>
         else
           let object_subtype = byte_stream_copy_to_uint32_little_endian data 28;
               subtype_read = Read ObjectField 28 4
           in if object_subtype \<noteq> 0x0000000e
              then \<lparr>result = Inl RUNTIME_ERROR_UNSUPPORTED_VALUE,
                    accesses = dumps @ [type_read, subtype_read],
                    btree = file_system_btree, live = on_error heap False False\<rparr>
              else
                let prints = (if debug_output lib
                              then [Read ObjectField 0 8, Read ObjectField 8 8, Read ObjectField 16 8]
                              else [])
                in prepend (dumps @ [type_read, subtype_read] @ prints)
                     (read_header lib file_system_btree data data_size heap))"

text \<open>
  The function (lines 269-769). \<open>file_system_btree\<close> and \<open>data\<close> are \<open>None\<close> for
  \<^verbatim>\<open>NULL\<close>; the three argument checks return -1 at once.
\<close>

definition libfsapfs_file_system_btree_read_data ::
  "library \<Rightarrow> byte list option \<Rightarrow> byte list option \<Rightarrow> size_t \<Rightarrow> nat \<Rightarrow> outcome" where
  "libfsapfs_file_system_btree_read_data lib file_system_btree data data_size heap =
     (case file_system_btree of
        None \<Rightarrow>
          \<lparr>result = Inl ARGUMENT_ERROR_INVALID_VALUE, accesses = [],
           btree = file_system_btree, live = heap\<rparr>
      | Some b \<Rightarrow>
          (case data of
             None \<Rightarrow>
               \<lparr>result = Inl RUNTIME_ERROR_VALUE_MISSING, accesses = [],
                btree = file_system_btree, live = heap\<rparr>
           | Some bytes \<Rightarrow>
               if data_size < sizeof_object \<or> data_size > SSIZE_MAX
               then \<lparr>result = Inl RUNTIME_ERROR_VALUE_OUT_OF_BOUNDS, accesses = [],
                     btree = file_system_btree, live = heap\<rparr>
               else read_object lib file_system_btree bytes data_size heap))"

subsection \<open>libfsapfs_file_system_btree_initialize\<close>

text \<open>
  Lines 42-109. The argument is a pointer to the pointer: \<open>None\<close> for \<^verbatim>\<open>NULL\<close>,
  \<open>Some None\<close> when it refers to \<^verbatim>\<open>NULL\<close>. The size of the structure and whether
  \<^verbatim>\<open>memory_allocate_structure\<close> gets its memory are given; \<^verbatim>\<open>memory_set\<close> returns
  its first argument, which is not \<^verbatim>\<open>NULL\<close> here. Returns the result and the argument
  afterwards.
\<close>

definition libfsapfs_file_system_btree_initialize ::
  "nat \<Rightarrow> bool \<Rightarrow> byte list option option \<Rightarrow> (error_code + unit) \<times> byte list option option" where
  "libfsapfs_file_system_btree_initialize sizeof_file_system_btree allocated file_system_btree =
     (case file_system_btree of
        None \<Rightarrow> (Inl ARGUMENT_ERROR_INVALID_VALUE, None)
      | Some (Some b) \<Rightarrow> (Inl RUNTIME_ERROR_VALUE_ALREADY_SET, Some (Some b))
      | Some None \<Rightarrow>
          if \<not> allocated then (Inl MEMORY_ERROR_INSUFFICIENT, Some None)
          else (Inr (), Some (Some (replicate sizeof_file_system_btree 0))))"

subsection \<open>What the statements below speak about\<close>

text \<open>
  The sizes of the two on-disk structures are such that the sums of lines 430 and 483
  do not wrap around in \<^verbatim>\<open>size_t\<close>.
\<close>

definition sane_sizes :: "library \<Rightarrow> bool" where
  "sane_sizes lib =
     (32 + unat (sizeof_btree_header lib) + unat (sizeof_btree_footer lib) < 2 ^ 64)"

text \<open>The header and the footer as the function decodes them (lines 454-458, 561-565).\<close>

definition decoded_header :: "library \<Rightarrow> byte list \<Rightarrow> btree_header option" where
  "decoded_header lib data =
     btree_header_read_data lib (slice data (unat sizeof_object) (unat (sizeof_btree_header lib)))"

definition decoded_footer :: "library \<Rightarrow> byte list \<Rightarrow> size_t \<Rightarrow> btree_footer option" where
  "decoded_footer lib data data_size =
     btree_footer_read_data lib
       (slice data (unat (data_size - sizeof_btree_footer lib)) (unat (sizeof_btree_footer lib)))"

text \<open>
  The call gets past line 480 with the header \<open>h\<close>: the arguments are accepted, the
  object type and subtype are the expected ones, the header is allocated and decoded
  and its flags are \<^verbatim>\<open>0x0003\<close>.
\<close>

definition header_accepted ::
  "library \<Rightarrow> byte list option \<Rightarrow> byte list \<Rightarrow> size_t \<Rightarrow> btree_header \<Rightarrow> bool" where
  "header_accepted lib file_system_btree data data_size h =
     (file_system_btree \<noteq> None \<and> sizeof_object \<le> data_size \<and> data_size \<le> SSIZE_MAX
      \<and> byte_stream_copy_to_uint32_little_endian data 24 = 0x00000002
      \<and> byte_stream_copy_to_uint32_little_endian data 28 = 0x0000000e
      \<and> sizeof_object + sizeof_btree_header lib \<le> data_size
      \<and> btree_header_initialize_ok lib
      \<and> decoded_header lib data = Some h
      \<and> flags h = 0x0003)"

text \<open>
  The call gets past line 575 with the footer \<open>f\<close>: the header is accepted, the buffer
  has room for the footer, the accounting chain passes, the footer is allocated and
  decoded.
\<close>

definition footer_reached ::
  "library \<Rightarrow> byte list option \<Rightarrow> byte list \<Rightarrow> size_t \<Rightarrow> btree_header \<Rightarrow> btree_footer \<Rightarrow> bool" where
  "footer_reached lib file_system_btree data data_size h f =
     (header_accepted lib file_system_btree data data_size h
      \<and> sizeof_object + sizeof_btree_header lib + sizeof_btree_footer lib \<le> data_size
      \<and> accounting_chain lib data_size h \<noteq> None
      \<and> btree_footer_initialize_ok lib
      \<and> decoded_footer lib data data_size = Some f)"

text \<open>
  The space between the header and the footer as an exact integer, and the four
  subtractions of the accounting chain on exact integers: each value is at most what
  remains before it is subtracted.
\<close>

definition remaining_space :: "library \<Rightarrow> size_t \<Rightarrow> int" where
  "remaining_space lib data_size =
     uint data_size - (32 + uint (sizeof_btree_header lib)) - uint (sizeof_btree_footer lib)"

definition chain_respected :: "library \<Rightarrow> size_t \<Rightarrow> btree_header \<Rightarrow> bool" where
  "chain_respected lib data_size h =
     (let r0 = remaining_space lib data_size;
          r1 = r0 - uint (entries_data_offset h);
          r2 = r1 - uint (entries_data_size h);
          r3 = r2 - uint (unused_data_offset h)
      in uint (entries_data_offset h) \<le> r0 \<and> uint (entries_data_size h) \<le> r1
         \<and> uint (unused_data_offset h) \<le> r2 \<and> uint (unused_data_size h) \<le> r3)"

text \<open>
  The node is not of the one supported variant, as far as lines 354-480 look: the
  object type or subtype is another one, or the header is decoded and its flags are not
  \<^verbatim>\<open>0x0003\<close>.
\<close>

definition unsupported_variant :: "library \<Rightarrow> byte list \<Rightarrow> size_t \<Rightarrow> bool" where
  "unsupported_variant lib data data_size =
     (byte_stream_copy_to_uint32_little_endian data 24 \<noteq> 0x00000002
      \<or> byte_stream_copy_to_uint32_little_endian data 28 \<noteq> 0x0000000e
      \<or> (sizeof_object + sizeof_btree_header lib \<le> data_size
          \<and> btree_header_initialize_ok lib
          \<and> (case decoded_header lib data of None \<Rightarrow> False | Some h \<Rightarrow> flags h \<noteq> 0x0003)))"

text \<open>
  The accounting chain as lines 496-545 test it, on exact integers: the two offsets
  are less than what remains, the two sizes are at most what remains.
\<close>

definition chain_passes :: "library \<Rightarrow> size_t \<Rightarrow> btree_header \<Rightarrow> bool" where
  "chain_passes lib data_size h =
     (let r0 = remaining_space lib data_size;
          r1 = r0 - uint (entries_data_offset h);
          r2 = r1 - uint (entries_data_size h);
          r3 = r2 - uint (unused_data_offset h)
      in uint (entries_data_offset h) < r0 \<and> uint (entries_data_size h) \<le> r1
         \<and> uint (unused_data_offset h) < r2 \<and> uint (unused_data_size h) \<le> r3)"

definition reads_of :: "region \<Rightarrow> access list \<Rightarrow> nat" where
  "reads_of r tr = length (filter (\<lambda>a. region_of a = r) tr)"

text \<open>
  The offsets of a key and of a value in the buffer as exact integers, as the debug
  output of lines 644 and 657 means them, for the header \<open>h\<close> and a record with the
  fields \<open>key_data_offset\<close> and \<open>value_data_offset\<close>.
\<close>

definition exact_key_offset :: "library \<Rightarrow> btree_header \<Rightarrow> uint16_t \<Rightarrow> int" where
  "exact_key_offset lib h key_data_offset =
     (32 + uint (sizeof_btree_header lib) + uint (entries_data_offset h)
        + uint (entries_data_size h)) + uint key_data_offset"

definition exact_value_offset :: "library \<Rightarrow> size_t \<Rightarrow> uint16_t \<Rightarrow> int" where
  "exact_value_offset lib data_size value_data_offset =
     (uint data_size - uint (sizeof_btree_footer lib)) - uint value_data_offset"

subsection \<open>An instance of the library and a node\<close>

text \<open>
  Modelled from the spec: the on-disk structures \<^verbatim>\<open>fsapfs_btree_header_t\<close> and
  \<^verbatim>\<open>fsapfs_btree_footer_t\<close> and their decoders are in other files of the library.
  This instance follows the field order of the on-disk layout of the spec: a header of
  24 bytes, flags (2), level (2), number of keys (4), entries offset (2), entries size
  (2), unused offset (2), unused size (2) and 8 reserved bytes; a footer of 16 bytes, key
  size (2), value size (2), number of entries (8) and 4 bytes of other metadata. Both
  allocations succeed and there is no debug output.
\<close>

definition example_header_read_data :: "byte list \<Rightarrow> btree_header option" where
  "example_header_read_data data =
     (if length data < 24 then None
      else Some \<lparr>flags = byte_stream_copy_to_uint16_little_endian data 0,
                 level = byte_stream_copy_to_uint16_little_endian data 2,
                 number_of_keys = byte_stream_copy_to_uint32_little_endian data 4,
                 entries_data_offset = byte_stream_copy_to_uint16_little_endian data 8,
                 entries_data_size = byte_stream_copy_to_uint16_little_endian data 10,
                 unused_data_offset = byte_stream_copy_to_uint16_little_endian data 12,
                 unused_data_size = byte_stream_copy_to_uint16_little_endian data 14\<rparr>)"

definition example_footer_read_data :: "byte list \<Rightarrow> btree_footer option" where
  "example_footer_read_data data =
     (if length data < 16 then None
      else Some \<lparr>key_size = byte_stream_copy_to_uint16_little_endian data 0,
                 value_size = byte_stream_copy_to_uint16_little_endian data 2,
                 number_of_entries = byte_stream_copy_to_uint64_little_endian data 4\<rparr>)"

definition example_library :: library where
  "example_library =
     \<lparr>sizeof_btree_header = 24, sizeof_btree_footer = 16,
      btree_header_initialize_ok = True, btree_header_read_data = example_header_read_data,
      btree_footer_initialize_ok = True, btree_footer_read_data = example_footer_read_data,
      debug_output = False\<rparr>"

text \<open>The header and the footer that the instance decodes from the nodes below.\<close>

definition example_header :: "byte \<Rightarrow> btree_header" where
  "example_header header_flags =
     \<lparr>flags = ucast header_flags, level = 0, number_of_keys = 1, entries_data_offset = 0,
      entries_data_size = 8, unused_data_offset = 0, unused_data_size = 0\<rparr>"

definition example_footer :: "byte \<Rightarrow> byte \<Rightarrow> btree_footer" where
  "example_footer footer_key_size footer_entries =
     \<lparr>key_size = ucast footer_key_size, value_size = 0, number_of_entries = ucast footer_entries\<rparr>"

text \<open>
  A node of 96 bytes: the object header with type 2 and subtype \<^verbatim>\<open>0xe\<close>; the B-tree
  header with the given flags, one key, the entries region at offset 0 with 8 bytes, no
  unused region; the given record of the table of contents at 56; 16 bytes of payload
  with \<^verbatim>\<open>K1\<close> at 64 and \<^verbatim>\<open>V1\<close> at 78; the footer at 80 with the given key size and
  the given number of entries.
\<close>

definition example_node :: "byte \<Rightarrow> byte list \<Rightarrow> byte \<Rightarrow> byte \<Rightarrow> byte list" where
  "example_node header_flags toc_record footer_key_size footer_entries =
     [0, 0, 0, 0, 0, 0, 0, 0,  0, 0, 0, 0, 0, 0, 0, 0,
      0, 0, 0, 0, 0, 0, 0, 0,  0x02, 0, 0, 0, 0x0e, 0, 0, 0]
     @ [header_flags, 0, 0, 0, 1, 0, 0, 0,  0, 0, 8, 0, 0, 0, 0, 0,  0, 0, 0, 0, 0, 0, 0, 0]
     @ toc_record
     @ [0x4b, 0x31, 0, 0, 0, 0, 0, 0,  0, 0, 0, 0, 0, 0, 0x56, 0x31]
     @ [footer_key_size, 0, 0, 0, footer_entries, 0, 0, 0,  0, 0, 0, 0, 0, 0, 0, 0]"

text \<open>
  The node whose record has the key of 2 bytes at offset 0 after the entries region and
  the value of 2 bytes at offset 2 before the footer.
\<close>

definition valid_node :: "byte list" where
  "valid_node = example_node 3 [0, 0, 2, 0, 2, 0, 2, 0] 0 1"

text \<open>The same node with the key offset \<^verbatim>\<open>0xffff\<close> in its record.\<close>

definition wrapped_key_node :: "byte list" where
  "wrapped_key_node = example_node 3 [0xff, 0xff, 2, 0, 2, 0, 2, 0] 0 1"

text \<open>The same node with the value offset \<^verbatim>\<open>0xffff\<close> in its record.\<close>

definition wrapped_value_node :: "byte list" where
  "wrapped_value_node = example_node 3 [0, 0, 2, 0, 0xff, 0xff, 2, 0] 0 1"

text \<open>The same node with the key size 1 in its footer.\<close>

definition fixed_key_size_node :: "byte list" where
  "fixed_key_size_node = example_node 3 [0, 0, 2, 0, 2, 0, 2, 0] 1 1"

text \<open>The same node with 2 entries in its footer.\<close>

definition two_entries_node :: "byte list" where
  "two_entries_node = example_node 3 [0, 0, 2, 0, 2, 0, 2, 0] 0 2"

text \<open>The same node with the flags \<^verbatim>\<open>0x0001\<close> in its header.\<close>

definition other_flags_node :: "byte list" where
  "other_flags_node = example_node 1 [0, 0, 2, 0, 2, 0, 2, 0] 0 1"

text \<open>
  The first 79 bytes of the same node, read with the size 79: its header declares an
  entries region of 8 bytes where 7 bytes remain between the header and the footer.
\<close>

definition short_node :: "byte list" where
  "short_node = take 79 valid_node"

text \<open>
  A node of 72 bytes that holds nothing but the object header, the B-tree header and
  the footer: no keys, the entries region and the unused region at offset 0 with 0
  bytes, no entries. Nothing remains between the header and the footer. The header that
  the instance decodes from it follows.
\<close>

definition packed_node :: "byte list" where
  "packed_node =
     [0, 0, 0, 0, 0, 0, 0, 0,  0, 0, 0, 0, 0, 0, 0, 0,
      0, 0, 0, 0, 0, 0, 0, 0,  0x02, 0, 0, 0, 0x0e, 0, 0, 0]
     @ [3, 0, 0, 0, 0, 0, 0, 0,  0, 0, 0, 0, 0, 0, 0, 0,  0, 0, 0, 0, 0, 0, 0, 0]
     @ [0, 0, 0, 0, 0, 0, 0, 0,  0, 0, 0, 0, 0, 0, 0, 0]"

definition packed_header :: btree_header where
  "packed_header =
     \<lparr>flags = 3, level = 0, number_of_keys = 0, entries_data_offset = 0,
      entries_data_size = 0, unused_data_offset = 0, unused_data_size = 0\<rparr>"

section \<open>Properties\<close>

subsection \<open>Word arithmetic\<close>

lemma unat_16_bound: "unat (x :: uint16_t) < 65536"
  using unsigned_less [of x, where 'a=nat] by simp

lemma unat_ucast_16_64: "unat (ucast (x :: uint16_t) :: size_t) = unat x"
proof -
  have "unat x < 2 ^ 64" using unat_16_bound [of x] by simp
  then show ?thesis
    by (simp add: unsigned_ucast_eq take_bit_nat_eq_self)
qed

lemmas to_nat = word_le_nat_alt word_less_nat_alt unat_sub_if_size unat_plus_if_size word_size
  unat_ucast_16_64

lemma not_out_of_bounds:
  "\<not> out_of_bounds data_size off sz \<Longrightarrow> unat off + unat sz \<le> unat data_size"
  unfolding out_of_bounds_def
  by (auto simp add: to_nat split: if_splits)

lemma out_of_bounds_iff:
  "out_of_bounds data_size off sz \<longleftrightarrow> \<not> unat off + unat sz \<le> unat data_size"
  unfolding out_of_bounds_def
  by (auto simp add: to_nat split: if_splits)

lemma accounting_chain_Some:
  assumes "sane_sizes lib"
    and "\<not> data_size < sizeof_object + sizeof_btree_header lib + sizeof_btree_footer lib"
    and "accounting_chain lib data_size h = Some r"
  shows "32 + unat (sizeof_btree_header lib) + unat (entries_data_offset h)
           + unat (entries_data_size h) + unat (unused_data_offset h) + unat (unused_data_size h)
           + unat (sizeof_btree_footer lib) \<le> unat data_size"
  using assms unfolding accounting_chain_def sane_sizes_def sizeof_object_def Let_def
  by (simp add: to_nat split: if_splits)


subsection \<open>The loop\<close>

lemma read_entry_error: "read_entry d data ds eo es fo off = (Inl e, tr) \<Longrightarrow> e = RUNTIME_ERROR_VALUE_OUT_OF_BOUNDS"
  unfolding read_entry_def Let_def by (auto split: if_splits)

lemma read_entry_in_bounds:
  "unat off + 8 \<le> unat ds \<Longrightarrow> list_all (in_bounds (unat ds)) (snd (read_entry d data ds eo es fo off))"
  unfolding read_entry_def Let_def by (auto dest: not_out_of_bounds)

lemma read_entry_records:
  "length (filter (\<lambda>a. region_of a = TocRecord) (snd (read_entry d data ds eo es fo off))) = 1"
  unfolding read_entry_def Let_def by auto

lemma unat_next_index: "i < n \<Longrightarrow> unat ((i :: uint64_t) + 1) = unat i + 1"
  by unat_arith

lemma unat_next_offset:
  "unat off + 8 \<le> unat (ds :: size_t) \<Longrightarrow> unat (off + sizeof_btree_variable_size_entry) = unat off + 8"
  unfolding sizeof_btree_variable_size_entry_def by unat_arith

lemma read_entries_unfold:
  "read_entries d data ds eo es fo n i off =
     (if i < n
      then (case read_entry d data ds eo es fo off of
              (Inl e, tr) \<Rightarrow> (Inl e, tr)
            | (Inr u, tr) \<Rightarrow>
                (fst (read_entries d data ds eo es fo n (i + 1) (off + sizeof_btree_variable_size_entry)),
                 tr @ snd (read_entries d data ds eo es fo n (i + 1) (off + sizeof_btree_variable_size_entry))))
      else (Inr (), []))"
  by (subst read_entries.simps) (simp split: prod.splits sum.splits)

lemma read_entries_error:
  "fst (read_entries d data ds eo es fo n i off) = Inl e \<Longrightarrow> e = RUNTIME_ERROR_VALUE_OUT_OF_BOUNDS"
proof (induction d data ds eo es fo n i off rule: read_entries.induct)
  case (1 d data ds eo es fo n i off)
  obtain r tr where re: "read_entry d data ds eo es fo off = (r, tr)"
    by fastforce
  show ?case
  proof (cases "i < n")
    case False
    with "1.prems" show ?thesis
      by (simp add: read_entries_unfold)
  next
    case True
    show ?thesis
    proof (cases r)
      case (Inl e')
      with True re "1.prems" read_entry_error [of d data ds eo es fo off e' tr] show ?thesis
        by (simp add: read_entries_unfold)
    next
      case (Inr u)
      with True re "1.prems" "1.IH" [OF True re [symmetric] Inr] show ?thesis
        by (simp add: read_entries_unfold)
    qed
  qed
qed

lemma read_entries_in_bounds:
  "unat i \<le> unat n \<Longrightarrow> unat off + 8 * (unat n - unat i) \<le> unat ds \<Longrightarrow>
   list_all (in_bounds (unat ds)) (snd (read_entries d data ds eo es fo n i off))"
proof (induction d data ds eo es fo n i off rule: read_entries.induct)
  case (1 d data ds eo es fo n i off)
  obtain r tr where re: "read_entry d data ds eo es fo off = (r, tr)"
    by fastforce
  show ?case
  proof (cases "i < n")
    case False
    then show ?thesis
      by (simp add: read_entries_unfold)
  next
    case True
    then have lt: "unat i < unat n"
      by (simp add: word_less_nat_alt)
    with "1.prems" have room: "unat off + 8 \<le> unat ds"
      by arith
    have here: "list_all (in_bounds (unat ds)) tr"
      using read_entry_in_bounds [OF room, of d data eo es fo] re by simp
    show ?thesis
    proof (cases r)
      case (Inl e')
      with True re here show ?thesis
        by (simp add: read_entries_unfold)
    next
      case (Inr u)
      have "unat (i + 1) \<le> unat n"
        using lt unat_next_index [OF True] by simp
      moreover have "unat (off + sizeof_btree_variable_size_entry) + 8 * (unat n - unat (i + 1)) \<le> unat ds"
        using lt "1.prems" unat_next_index [OF True] unat_next_offset [OF room] by simp
      ultimately have "list_all (in_bounds (unat ds))
          (snd (read_entries d data ds eo es fo n (i + 1) (off + sizeof_btree_variable_size_entry)))"
        by (rule "1.IH" [OF True re [symmetric] Inr])
      with True re here Inr show ?thesis
        by (simp add: read_entries_unfold)
    qed
  qed
qed

lemma read_entries_records:
  "fst (read_entries d data ds eo es fo n i off) = Inr () \<Longrightarrow>
   length (filter (\<lambda>a. region_of a = TocRecord) (snd (read_entries d data ds eo es fo n i off)))
     = unat n - unat i"
proof (induction d data ds eo es fo n i off rule: read_entries.induct)
  case (1 d data ds eo es fo n i off)
  obtain r tr where re: "read_entry d data ds eo es fo off = (r, tr)"
    by fastforce
  show ?case
  proof (cases "i < n")
    case False
    then show ?thesis
      by (simp add: read_entries_unfold word_less_nat_alt)
  next
    case True
    then have lt: "unat i < unat n"
      by (simp add: word_less_nat_alt)
    have one: "length (filter (\<lambda>a. region_of a = TocRecord) tr) = 1"
      using read_entry_records [of d data ds eo es fo off] re by simp
    show ?thesis
    proof (cases r)
      case (Inl e')
      with True re "1.prems" show ?thesis
        by (simp add: read_entries_unfold)
    next
      case (Inr u)
      with True re "1.prems"
      have "fst (read_entries d data ds eo es fo n (i + 1) (off + sizeof_btree_variable_size_entry)) = Inr ()"
        by (simp add: read_entries_unfold)
      then have "length (filter (\<lambda>a. region_of a = TocRecord)
          (snd (read_entries d data ds eo es fo n (i + 1) (off + sizeof_btree_variable_size_entry))))
          = unat n - unat (i + 1)"
        by (rule "1.IH" [OF True re [symmetric] Inr])
      with True re one Inr lt unat_next_index [OF True] show ?thesis
        by (simp add: read_entries_unfold)
    qed
  qed
qed

lemma read_entry_debug:
  "fst (read_entry d data ds eo es fo off) = fst (read_entry d' data ds eo es fo off)"
  unfolding read_entry_def Let_def by simp

lemma read_entries_debug:
  "fst (read_entries d data ds eo es fo n i off) = fst (read_entries d' data ds eo es fo n i off)"
proof (induction d data ds eo es fo n i off rule: read_entries.induct)
  case (1 d data ds eo es fo n i off)
  obtain r tr where re: "read_entry d data ds eo es fo off = (r, tr)"
    by fastforce
  obtain r' tr' where re': "read_entry d' data ds eo es fo off = (r', tr')"
    by fastforce
  have same: "r' = r"
    using read_entry_debug [of d data ds eo es fo off d'] re re' by simp
  show ?case
  proof (cases "i < n")
    case False
    then show ?thesis
      by (simp add: read_entries_unfold)
  next
    case True
    show ?thesis
    proof (cases r)
      case (Inl e')
      with True re re' same show ?thesis
        by (simp add: read_entries_unfold [of d] read_entries_unfold [of d'])
    next
      case (Inr u)
      with True re re' same "1.IH" [OF True re [symmetric] Inr] show ?thesis
        by (simp add: read_entries_unfold [of d] read_entries_unfold [of d'])
    qed
  qed
qed

subsection \<open>Stage by stage: the structure, the heap, the accesses\<close>

lemma result_prepend [simp]: "result (prepend tr oc) = result oc"
  and accesses_prepend [simp]: "accesses (prepend tr oc) = tr @ accesses oc"
  and btree_prepend [simp]: "btree (prepend tr oc) = btree oc"
  and live_prepend [simp]: "live (prepend tr oc) = live oc"
  by (simp_all add: prepend_def)

lemma btree_resolve_entries: "btree (resolve_entries lib fsb data ds heap h f) = fsb"
  unfolding resolve_entries_def Let_def by (simp split: prod.splits sum.splits)

lemma btree_read_footer: "btree (read_footer lib fsb data ds heap h) = fsb"
  unfolding read_footer_def Let_def by (simp add: btree_resolve_entries split: option.splits)

lemma btree_check_layout: "btree (check_layout lib fsb data ds heap h) = fsb"
  unfolding check_layout_def Let_def by (simp add: btree_read_footer split: option.splits)

lemma btree_read_header: "btree (read_header lib fsb data ds heap) = fsb"
  unfolding read_header_def Let_def by (simp add: btree_check_layout split: option.splits)

lemma btree_read_object: "btree (read_object lib fsb data ds heap) = fsb"
  unfolding read_object_def Let_def by (simp add: btree_read_header)

lemma btree_read_data: "btree (libfsapfs_file_system_btree_read_data lib fsb data ds heap) = fsb"
  unfolding libfsapfs_file_system_btree_read_data_def
  by (simp add: btree_read_object split: option.splits)

lemmas heap_defs = on_error_def allocate_def libfsapfs_btree_header_free_def
  libfsapfs_btree_footer_free_def

lemma live_resolve_entries: "live (resolve_entries lib fsb data ds heap h f) = heap - 1 - 1"
  unfolding resolve_entries_def Let_def by (simp add: heap_defs split: prod.splits sum.splits)

lemma live_read_footer: "live (read_footer lib fsb data ds heap h) = heap - 1"
  unfolding read_footer_def Let_def
  by (simp add: live_resolve_entries heap_defs split: option.splits)

lemma live_check_layout: "live (check_layout lib fsb data ds heap h) = heap - 1"
  unfolding check_layout_def Let_def
  by (simp add: live_read_footer heap_defs split: option.splits)

lemma live_read_header: "live (read_header lib fsb data ds heap) = heap"
  unfolding read_header_def Let_def
  by (simp add: live_check_layout heap_defs split: option.splits)

lemma live_read_object: "live (read_object lib fsb data ds heap) = heap"
  unfolding read_object_def Let_def by (simp add: live_read_header heap_defs)

lemma live_read_data: "live (libfsapfs_file_system_btree_read_data lib fsb data ds heap) = heap"
  unfolding libfsapfs_file_system_btree_read_data_def
  by (simp add: live_read_object split: option.splits)

lemma result_resolve_entries:
  "result (resolve_entries lib fsb data ds heap h f) =
     fst (read_entries (debug_output lib) data ds
        (entries_data_offset h + ucast (sizeof_object + sizeof_btree_header lib))
        (entries_data_size h) (ucast (ds - sizeof_btree_footer lib)) (number_of_entries f) 0
        (sizeof_object + sizeof_btree_header lib + ucast (entries_data_offset h)))"
  unfolding resolve_entries_def Let_def by (auto split: prod.splits sum.splits)

lemma accesses_resolve_entries:
  "accesses (resolve_entries lib fsb data ds heap h f) =
     snd (read_entries (debug_output lib) data ds
        (entries_data_offset h + ucast (sizeof_object + sizeof_btree_header lib))
        (entries_data_size h) (ucast (ds - sizeof_btree_footer lib)) (number_of_entries f) 0
        (sizeof_object + sizeof_btree_header lib + ucast (entries_data_offset h)))"
  unfolding resolve_entries_def Let_def by (auto split: prod.splits sum.splits)

lemma resolve_entries_in_bounds:
  assumes "sane_sizes lib"
    and "sizeof_object + sizeof_btree_header lib + sizeof_btree_footer lib \<le> ds"
    and "accounting_chain lib ds h = Some r"
    and "\<not> number_of_entries f >
           ucast ((ucast (entries_data_size h) :: size_t) div sizeof_btree_variable_size_entry)"
  shows "list_all (in_bounds (unat ds)) (accesses (resolve_entries lib fsb data ds heap h f))"
proof -
  have total: "32 + unat (sizeof_btree_header lib) + unat (entries_data_offset h)
           + unat (entries_data_size h) + unat (unused_data_offset h) + unat (unused_data_size h)
           + unat (sizeof_btree_footer lib) \<le> unat ds"
    using assms(1-3) by (intro accounting_chain_Some) (simp_all add: not_less)
  have lt: "unat ds < 2 ^ 64"
    using unsigned_less [of ds, where 'a=nat] by simp
  have off: "unat (sizeof_object + sizeof_btree_header lib + ucast (entries_data_offset h))
      = 32 + unat (sizeof_btree_header lib) + unat (entries_data_offset h)"
    using total lt by (simp add: to_nat sizeof_object_def)
  have n: "8 * unat (number_of_entries f) \<le> unat (entries_data_size h)"
    using assms(4) unat_16_bound [of "entries_data_size h"]
    by (simp add: not_less word_le_nat_alt unat_div unat_ucast_16_64 sizeof_btree_variable_size_entry_def)
  have "list_all (in_bounds (unat ds))
     (snd (read_entries (debug_output lib) data ds
        (entries_data_offset h + ucast (sizeof_object + sizeof_btree_header lib))
        (entries_data_size h) (ucast (ds - sizeof_btree_footer lib)) (number_of_entries f) 0
        (sizeof_object + sizeof_btree_header lib + ucast (entries_data_offset h))))"
    using total n off by (intro read_entries_in_bounds) simp_all
  then show ?thesis
    by (simp add: accesses_resolve_entries)
qed

lemma read_footer_in_bounds:
  assumes "sane_sizes lib"
    and "sizeof_object + sizeof_btree_header lib + sizeof_btree_footer lib \<le> ds"
    and "accounting_chain lib ds h = Some r"
  shows "list_all (in_bounds (unat ds)) (accesses (read_footer lib fsb data ds heap h))"
proof -
  have ft: "unat (ds - sizeof_btree_footer lib) + unat (sizeof_btree_footer lib) \<le> unat ds"
    using assms(1,2) by (simp add: to_nat sizeof_object_def sane_sizes_def split: if_splits)
  show ?thesis
    unfolding read_footer_def Let_def
    using ft resolve_entries_in_bounds [OF assms]
    by (simp split: option.splits)
qed

lemma check_layout_in_bounds:
  assumes "sane_sizes lib"
  shows "list_all (in_bounds (unat ds)) (accesses (check_layout lib fsb data ds heap h))"
  unfolding check_layout_def Let_def
  using read_footer_in_bounds [OF assms]
  by (simp add: not_less split: option.splits)

lemma read_header_in_bounds:
  assumes "sane_sizes lib"
  shows "list_all (in_bounds (unat ds)) (accesses (read_header lib fsb data ds heap))"
proof -
  have "unat sizeof_object + unat (sizeof_btree_header lib) \<le> unat ds"
    if "sizeof_object + sizeof_btree_header lib \<le> ds"
    using that assms by (simp add: to_nat sizeof_object_def sane_sizes_def split: if_splits)
  then show ?thesis
    unfolding read_header_def Let_def
    using check_layout_in_bounds [OF assms]
    by (simp add: not_less split: option.splits)
qed

lemma read_object_in_bounds:
  assumes "sane_sizes lib" and "sizeof_object \<le> ds"
  shows "list_all (in_bounds (unat ds)) (accesses (read_object lib fsb data ds heap))"
proof -
  have "32 \<le> unat ds"
    using assms(2) by (simp add: to_nat sizeof_object_def)
  then show ?thesis
    unfolding read_object_def Let_def
    using read_header_in_bounds [OF assms(1)]
    by (simp add: sizeof_object_def)
qed

lemma read_data_in_bounds:
  assumes "sane_sizes lib"
  shows "list_all (in_bounds (unat ds))
           (accesses (libfsapfs_file_system_btree_read_data lib fsb data ds heap))"
  unfolding libfsapfs_file_system_btree_read_data_def
  using read_object_in_bounds [OF assms]
  by (simp add: not_less split: option.splits)

subsection \<open>Evaluating the instance\<close>

lemmas example_defs = example_library_def example_header_read_data_def
  example_footer_read_data_def example_node_def slice_def
  byte_stream_copy_to_uint16_little_endian_def byte_stream_copy_to_uint32_little_endian_def
  byte_stream_copy_to_uint64_little_endian_def sizeof_object_def
  sizeof_btree_variable_size_entry_def SSIZE_MAX_def

lemmas stage_defs = libfsapfs_file_system_btree_read_data_def read_object_def read_header_def
  check_layout_def accounting_chain_def read_footer_def resolve_entries_def read_entry_def
  key_block_offset_def value_block_offset_def out_of_bounds_def prepend_def heap_defs

lemma sane_example_library: "sane_sizes example_library"
  by (simp add: sane_sizes_def example_library_def)

lemma sane_sizes_debug: "sane_sizes (lib\<lparr>debug_output := d\<rparr>) = sane_sizes lib"
  by (simp add: sane_sizes_def)

subsection \<open>Which error\<close>

lemma resolve_entries_error:
  "result (resolve_entries lib fsb data ds heap h f) = Inl e \<Longrightarrow> e = RUNTIME_ERROR_VALUE_OUT_OF_BOUNDS"
  by (simp add: result_resolve_entries read_entries_error)

lemma resolve_entries_supported:
  "result (resolve_entries lib fsb data ds heap h f) \<noteq> Inl RUNTIME_ERROR_UNSUPPORTED_VALUE"
  using resolve_entries_error by fastforce

lemma read_footer_supported:
  "result (read_footer lib fsb data ds heap h) \<noteq> Inl RUNTIME_ERROR_UNSUPPORTED_VALUE"
  unfolding read_footer_def Let_def
  by (simp add: resolve_entries_supported split: option.splits)

lemma check_layout_supported:
  "result (check_layout lib fsb data ds heap h) \<noteq> Inl RUNTIME_ERROR_UNSUPPORTED_VALUE"
  unfolding check_layout_def Let_def
  by (simp add: read_footer_supported split: option.splits)

lemma read_header_unsupported:
  "result (read_header lib fsb data ds heap) = Inl RUNTIME_ERROR_UNSUPPORTED_VALUE \<longleftrightarrow>
     sizeof_object + sizeof_btree_header lib \<le> ds \<and> btree_header_initialize_ok lib
     \<and> (case decoded_header lib data of None \<Rightarrow> False | Some h \<Rightarrow> flags h \<noteq> 0x0003)"
  unfolding read_header_def Let_def decoded_header_def
  by (simp add: check_layout_supported not_less not_le split: option.splits)

lemma read_object_unsupported:
  "result (read_object lib fsb data ds heap) = Inl RUNTIME_ERROR_UNSUPPORTED_VALUE \<longleftrightarrow>
     unsupported_variant lib data ds"
  unfolding read_object_def Let_def unsupported_variant_def
  by (simp add: read_header_unsupported)

lemma read_data_unsupported:
  assumes "fsb \<noteq> None" and "sizeof_object \<le> ds" and "ds \<le> SSIZE_MAX"
  shows "result (libfsapfs_file_system_btree_read_data lib fsb (Some data) ds heap)
           = Inl RUNTIME_ERROR_UNSUPPORTED_VALUE \<longleftrightarrow> unsupported_variant lib data ds"
proof -
  from assms(1) obtain b where "fsb = Some b"
    by (cases fsb) simp_all
  with assms(2,3) show ?thesis
    unfolding libfsapfs_file_system_btree_read_data_def
    by (simp add: read_object_unsupported leD)
qed

subsection \<open>Paths\<close>

lemma read_object_accepted:
  assumes "byte_stream_copy_to_uint32_little_endian data 24 = 0x00000002"
    and "byte_stream_copy_to_uint32_little_endian data 28 = 0x0000000e"
  shows "result (read_object lib fsb data ds heap) = result (read_header lib fsb data ds heap)"
    and "reads_of FooterSlice (accesses (read_object lib fsb data ds heap))
           = reads_of FooterSlice (accesses (read_header lib fsb data ds heap))"
    and "reads_of TocRecord (accesses (read_object lib fsb data ds heap))
           = reads_of TocRecord (accesses (read_header lib fsb data ds heap))"
  using assms unfolding read_object_def Let_def reads_of_def
  by simp_all

lemma read_header_accepted:
  assumes "sizeof_object + sizeof_btree_header lib \<le> ds"
    and "btree_header_initialize_ok lib"
    and "decoded_header lib data = Some h"
    and "flags h = 0x0003"
  shows "result (read_header lib fsb data ds heap) = result (check_layout lib fsb data ds (allocate heap) h)"
    and "reads_of FooterSlice (accesses (read_header lib fsb data ds heap))
           = reads_of FooterSlice (accesses (check_layout lib fsb data ds (allocate heap) h))"
    and "reads_of TocRecord (accesses (read_header lib fsb data ds heap))
           = reads_of TocRecord (accesses (check_layout lib fsb data ds (allocate heap) h))"
  using assms unfolding read_header_def Let_def reads_of_def decoded_header_def
  by (simp_all add: leD)

lemma read_data_header_accepted:
  assumes "header_accepted lib fsb data ds h"
  shows "result (libfsapfs_file_system_btree_read_data lib fsb (Some data) ds heap)
           = result (check_layout lib fsb data ds (allocate heap) h)"
    and "reads_of FooterSlice (accesses (libfsapfs_file_system_btree_read_data lib fsb (Some data) ds heap))
           = reads_of FooterSlice (accesses (check_layout lib fsb data ds (allocate heap) h))"
    and "reads_of TocRecord (accesses (libfsapfs_file_system_btree_read_data lib fsb (Some data) ds heap))
           = reads_of TocRecord (accesses (check_layout lib fsb data ds (allocate heap) h))"
proof -
  from assms obtain b where fsb: "fsb = Some b"
    by (cases fsb) (simp_all add: header_accepted_def)
  from assms have args: "sizeof_object \<le> ds" "ds \<le> SSIZE_MAX"
    and obj: "byte_stream_copy_to_uint32_little_endian data 24 = 0x00000002"
      "byte_stream_copy_to_uint32_little_endian data 28 = 0x0000000e"
    and hdr: "sizeof_object + sizeof_btree_header lib \<le> ds" "btree_header_initialize_ok lib"
      "decoded_header lib data = Some h" "flags h = 0x0003"
    by (simp_all add: header_accepted_def)
  have "libfsapfs_file_system_btree_read_data lib fsb (Some data) ds heap
          = read_object lib fsb data ds heap"
    using fsb args unfolding libfsapfs_file_system_btree_read_data_def by (simp add: leD)
  then show "result (libfsapfs_file_system_btree_read_data lib fsb (Some data) ds heap)
           = result (check_layout lib fsb data ds (allocate heap) h)"
    and "reads_of FooterSlice (accesses (libfsapfs_file_system_btree_read_data lib fsb (Some data) ds heap))
           = reads_of FooterSlice (accesses (check_layout lib fsb data ds (allocate heap) h))"
    and "reads_of TocRecord (accesses (libfsapfs_file_system_btree_read_data lib fsb (Some data) ds heap))
           = reads_of TocRecord (accesses (check_layout lib fsb data ds (allocate heap) h))"
    by (simp_all add: read_object_accepted [OF obj] read_header_accepted [OF hdr])
qed

lemma check_layout_footer_reached:
  assumes "sizeof_object + sizeof_btree_header lib + sizeof_btree_footer lib \<le> ds"
    and "accounting_chain lib ds h \<noteq> None"
    and "btree_footer_initialize_ok lib"
    and "decoded_footer lib data ds = Some f"
  shows "result (check_layout lib fsb data ds heap h) =
           (if key_size f \<noteq> 0 \<or> value_size f \<noteq> 0
               \<or> number_of_entries f >
                    ucast ((ucast (entries_data_size h) :: size_t) div sizeof_btree_variable_size_entry)
            then Inl RUNTIME_ERROR_VALUE_OUT_OF_BOUNDS
            else result (resolve_entries lib fsb data ds (allocate heap) h f))"
    and "reads_of TocRecord (accesses (check_layout lib fsb data ds heap h)) =
           (if key_size f \<noteq> 0 \<or> value_size f \<noteq> 0
               \<or> number_of_entries f >
                    ucast ((ucast (entries_data_size h) :: size_t) div sizeof_btree_variable_size_entry)
            then 0
            else reads_of TocRecord (accesses (resolve_entries lib fsb data ds (allocate heap) h f)))"
proof -
  from assms(2) obtain r where "accounting_chain lib ds h = Some r"
    by (cases "accounting_chain lib ds h") simp_all
  with assms(1,3,4) show "result (check_layout lib fsb data ds heap h) =
           (if key_size f \<noteq> 0 \<or> value_size f \<noteq> 0
               \<or> number_of_entries f >
                    ucast ((ucast (entries_data_size h) :: size_t) div sizeof_btree_variable_size_entry)
            then Inl RUNTIME_ERROR_VALUE_OUT_OF_BOUNDS
            else result (resolve_entries lib fsb data ds (allocate heap) h f))"
    and "reads_of TocRecord (accesses (check_layout lib fsb data ds heap h)) =
           (if key_size f \<noteq> 0 \<or> value_size f \<noteq> 0
               \<or> number_of_entries f >
                    ucast ((ucast (entries_data_size h) :: size_t) div sizeof_btree_variable_size_entry)
            then 0
            else reads_of TocRecord (accesses (resolve_entries lib fsb data ds (allocate heap) h f)))"
    unfolding check_layout_def read_footer_def Let_def decoded_footer_def reads_of_def
    by (simp_all add: leD)
qed

lemma read_header_success:
  assumes "result (read_header lib fsb data ds heap) = Inr ()"
  shows "\<exists>h. sizeof_object + sizeof_btree_header lib \<le> ds \<and> btree_header_initialize_ok lib
           \<and> decoded_header lib data = Some h \<and> flags h = 0x0003
           \<and> result (check_layout lib fsb data ds (allocate heap) h) = Inr ()"
  using assms unfolding read_header_def Let_def decoded_header_def
  by (simp add: not_less split: if_splits option.splits)

lemma read_object_success:
  assumes "result (read_object lib fsb data ds heap) = Inr ()"
  shows "byte_stream_copy_to_uint32_little_endian data 24 = 0x00000002
         \<and> byte_stream_copy_to_uint32_little_endian data 28 = 0x0000000e
         \<and> result (read_header lib fsb data ds heap) = Inr ()"
  using assms unfolding read_object_def Let_def
  by (simp split: if_splits)

lemma read_data_success:
  assumes "result (libfsapfs_file_system_btree_read_data lib fsb data ds heap) = Inr ()"
  shows "\<exists>bytes. data = Some bytes \<and> fsb \<noteq> None \<and> sizeof_object \<le> ds \<and> ds \<le> SSIZE_MAX
           \<and> result (read_object lib fsb bytes ds heap) = Inr ()"
  using assms unfolding libfsapfs_file_system_btree_read_data_def
  by (simp add: not_less split: if_splits option.splits)

lemma check_layout_success:
  assumes "result (check_layout lib fsb data ds heap h) = Inr ()"
  shows "\<exists>f. sizeof_object + sizeof_btree_header lib + sizeof_btree_footer lib \<le> ds
           \<and> accounting_chain lib ds h \<noteq> None \<and> btree_footer_initialize_ok lib
           \<and> decoded_footer lib data ds = Some f"
  using assms unfolding check_layout_def read_footer_def Let_def decoded_footer_def
  by (simp add: not_less split: if_splits option.splits)

lemma read_data_success_footer:
  assumes "result (libfsapfs_file_system_btree_read_data lib fsb data ds heap) = Inr ()"
  shows "\<exists>bytes h f. data = Some bytes \<and> footer_reached lib fsb bytes ds h f"
proof -
  from read_data_success [OF assms] obtain bytes where data: "data = Some bytes"
    and args: "fsb \<noteq> None" "sizeof_object \<le> ds" "ds \<le> SSIZE_MAX"
    and ro: "result (read_object lib fsb bytes ds heap) = Inr ()"
    by blast
  from read_object_success [OF ro]
  have obj: "byte_stream_copy_to_uint32_little_endian bytes 24 = 0x00000002"
      "byte_stream_copy_to_uint32_little_endian bytes 28 = 0x0000000e"
    and rh: "result (read_header lib fsb bytes ds heap) = Inr ()"
    by simp_all
  from read_header_success [OF rh] obtain h
    where hdr: "sizeof_object + sizeof_btree_header lib \<le> ds" "btree_header_initialize_ok lib"
      "decoded_header lib bytes = Some h" "flags h = 0x0003"
    and cl: "result (check_layout lib fsb bytes ds (allocate heap) h) = Inr ()"
    by blast
  from check_layout_success [OF cl] obtain f
    where "sizeof_object + sizeof_btree_header lib + sizeof_btree_footer lib \<le> ds"
      "accounting_chain lib ds h \<noteq> None" "btree_footer_initialize_ok lib"
      "decoded_footer lib bytes ds = Some f"
    by blast
  with data args obj hdr have "data = Some bytes \<and> footer_reached lib fsb bytes ds h f"
    by (simp add: footer_reached_def header_accepted_def)
  then show ?thesis
    by blast
qed

subsection \<open>The accounting chain\<close>

lemma room_nat:
  assumes "sane_sizes lib"
  shows "sizeof_object + sizeof_btree_header lib + sizeof_btree_footer lib \<le> ds \<longleftrightarrow>
         32 + unat (sizeof_btree_header lib) + unat (sizeof_btree_footer lib) \<le> unat ds"
  using assms unfolding sane_sizes_def sizeof_object_def
  by (simp add: to_nat)

lemma unat_sub_ucast:
  "unat (x :: uint16_t) \<le> unat (r :: size_t) \<Longrightarrow> unat (r - ucast x) = unat r - unat x"
  by (simp add: unat_sub word_le_nat_alt unat_ucast_16_64)

lemma accounting_chain_nat:
  assumes "sane_sizes lib"
    and "sizeof_object + sizeof_btree_header lib + sizeof_btree_footer lib \<le> ds"
  shows "accounting_chain lib ds h \<noteq> None \<longleftrightarrow>
     32 + unat (sizeof_btree_header lib) + unat (sizeof_btree_footer lib)
       + unat (entries_data_offset h) < unat ds
     \<and> 32 + unat (sizeof_btree_header lib) + unat (sizeof_btree_footer lib)
       + unat (entries_data_offset h) + unat (entries_data_size h) \<le> unat ds
     \<and> 32 + unat (sizeof_btree_header lib) + unat (sizeof_btree_footer lib)
       + unat (entries_data_offset h) + unat (entries_data_size h)
       + unat (unused_data_offset h) < unat ds
     \<and> 32 + unat (sizeof_btree_header lib) + unat (sizeof_btree_footer lib)
       + unat (entries_data_offset h) + unat (entries_data_size h)
       + unat (unused_data_offset h) + unat (unused_data_size h) \<le> unat ds"
    (is "_ \<longleftrightarrow> ?p1 \<and> ?p2 \<and> ?p3 \<and> ?p4")
proof -
  define r0 where "r0 = ds - (sizeof_object + sizeof_btree_header lib) - sizeof_btree_footer lib"
  have room: "32 + unat (sizeof_btree_header lib) + unat (sizeof_btree_footer lib) \<le> unat ds"
    using assms by (simp add: room_nat)
  have lt: "unat ds < 2 ^ 64"
    using unsigned_less [of ds, where 'a=nat] by simp
  have r0: "unat r0
      = unat ds - (32 + unat (sizeof_btree_header lib) + unat (sizeof_btree_footer lib))"
    unfolding r0_def using room lt by (simp add: to_nat sizeof_object_def)
  show ?thesis
  proof (cases "ucast (entries_data_offset h) \<ge> r0")
    case True
    then have none: "accounting_chain lib ds h = None"
      unfolding accounting_chain_def Let_def r0_def by simp
    from True have "unat r0 \<le> unat (entries_data_offset h)"
      by (simp add: word_le_nat_alt unat_ucast_16_64)
    with room r0 have "\<not> ?p1"
      by arith
    with none show ?thesis
      by blast
  next
    case c1: False
    then have a: "unat (entries_data_offset h) < unat r0"
      by (simp add: word_le_nat_alt unat_ucast_16_64)
    with room r0 have p1: ?p1
      by arith
    define r1 where "r1 = r0 - ucast (entries_data_offset h)"
    have r1: "unat r1 = unat r0 - unat (entries_data_offset h)"
      unfolding r1_def using a by (simp add: unat_sub_ucast)
    show ?thesis
    proof (cases "ucast (entries_data_size h) > r1")
      case True
      with c1 have none: "accounting_chain lib ds h = None"
        unfolding accounting_chain_def Let_def r0_def r1_def by simp
      from True have "unat r1 < unat (entries_data_size h)"
        by (simp add: word_less_nat_alt unat_ucast_16_64)
      with room r0 r1 a have "\<not> ?p2"
        by arith
      with none show ?thesis
        by blast
    next
      case c2: False
      then have b: "unat (entries_data_size h) \<le> unat r1"
        by (simp add: word_less_nat_alt unat_ucast_16_64)
      with room r0 r1 a have p2: ?p2
        by arith
      define r2 where "r2 = r1 - ucast (entries_data_size h)"
      have r2: "unat r2 = unat r1 - unat (entries_data_size h)"
        unfolding r2_def using b by (simp add: unat_sub_ucast)
      show ?thesis
      proof (cases "ucast (unused_data_offset h) \<ge> r2")
        case True
        with c1 c2 have none: "accounting_chain lib ds h = None"
          unfolding accounting_chain_def Let_def r0_def r1_def r2_def by simp
        from True have "unat r2 \<le> unat (unused_data_offset h)"
          by (simp add: word_le_nat_alt unat_ucast_16_64)
        with room r0 r1 r2 a b have "\<not> ?p3"
          by arith
        with none show ?thesis
          by blast
      next
        case c3: False
        then have c: "unat (unused_data_offset h) < unat r2"
          by (simp add: word_le_nat_alt unat_ucast_16_64)
        with room r0 r1 r2 a b have p3: ?p3
          by arith
        define r3 where "r3 = r2 - ucast (unused_data_offset h)"
        have r3: "unat r3 = unat r2 - unat (unused_data_offset h)"
          unfolding r3_def using c by (simp add: unat_sub_ucast)
        have "accounting_chain lib ds h \<noteq> None \<longleftrightarrow> \<not> ucast (unused_data_size h) > r3"
          using c1 c2 c3 unfolding accounting_chain_def Let_def r0_def r1_def r2_def r3_def
          by simp
        also have "\<dots> \<longleftrightarrow> unat (unused_data_size h) \<le> unat r3"
          by (simp add: word_less_nat_alt unat_ucast_16_64 not_less)
        also from room r0 r1 r2 r3 a b c have "\<dots> \<longleftrightarrow> ?p4"
          by arith
        finally show ?thesis
          using p1 p2 p3 by blast
      qed
    qed
  qed
qed

lemma chain_passes_nat:
  assumes "32 + unat (sizeof_btree_header lib) + unat (sizeof_btree_footer lib) \<le> unat ds"
  shows "chain_passes lib ds h \<longleftrightarrow>
     32 + unat (sizeof_btree_header lib) + unat (sizeof_btree_footer lib)
       + unat (entries_data_offset h) < unat ds
     \<and> 32 + unat (sizeof_btree_header lib) + unat (sizeof_btree_footer lib)
       + unat (entries_data_offset h) + unat (entries_data_size h) \<le> unat ds
     \<and> 32 + unat (sizeof_btree_header lib) + unat (sizeof_btree_footer lib)
       + unat (entries_data_offset h) + unat (entries_data_size h)
       + unat (unused_data_offset h) < unat ds
     \<and> 32 + unat (sizeof_btree_header lib) + unat (sizeof_btree_footer lib)
       + unat (entries_data_offset h) + unat (entries_data_size h)
       + unat (unused_data_offset h) + unat (unused_data_size h) \<le> unat ds"
  using assms unfolding chain_passes_def remaining_space_def Let_def uint_nat
  by (intro iffI conjI; (elim conjE)?; linarith)

lemma accounting_chain_passes:
  assumes "sane_sizes lib"
    and "sizeof_object + sizeof_btree_header lib + sizeof_btree_footer lib \<le> ds"
  shows "accounting_chain lib ds h \<noteq> None \<longleftrightarrow> chain_passes lib ds h"
proof -
  have "32 + unat (sizeof_btree_header lib) + unat (sizeof_btree_footer lib) \<le> unat ds"
    using assms by (simp add: room_nat)
  then show ?thesis
    unfolding accounting_chain_nat [OF assms] by (simp only: chain_passes_nat)
qed

lemma chain_passes_respected: "chain_passes lib ds h \<Longrightarrow> chain_respected lib ds h"
  unfolding chain_passes_def chain_respected_def Let_def by simp

lemma no_room_not_respected:
  assumes "sane_sizes lib"
    and "\<not> sizeof_object + sizeof_btree_header lib + sizeof_btree_footer lib \<le> ds"
  shows "\<not> chain_respected lib ds h"
proof -
  have "\<not> 32 + unat (sizeof_btree_header lib) + unat (sizeof_btree_footer lib) \<le> unat ds"
    using assms by (simp add: room_nat)
  then show ?thesis
    unfolding chain_respected_def remaining_space_def Let_def uint_nat
    by linarith
qed

lemma reads_of_Nil [simp]: "reads_of r [] = 0"
  by (simp add: reads_of_def)

lemma read_data_footer_reached:
  assumes "footer_reached lib fsb data ds h f"
  shows "result (libfsapfs_file_system_btree_read_data lib fsb (Some data) ds heap) =
           (if key_size f \<noteq> 0 \<or> value_size f \<noteq> 0
               \<or> number_of_entries f >
                    ucast ((ucast (entries_data_size h) :: size_t) div sizeof_btree_variable_size_entry)
            then Inl RUNTIME_ERROR_VALUE_OUT_OF_BOUNDS
            else result (resolve_entries lib fsb data ds (allocate (allocate heap)) h f))"
    and "reads_of TocRecord (accesses (libfsapfs_file_system_btree_read_data lib fsb (Some data) ds heap)) =
           (if key_size f \<noteq> 0 \<or> value_size f \<noteq> 0
               \<or> number_of_entries f >
                    ucast ((ucast (entries_data_size h) :: size_t) div sizeof_btree_variable_size_entry)
            then 0
            else reads_of TocRecord (accesses (resolve_entries lib fsb data ds (allocate (allocate heap)) h f)))"
proof -
  from assms have ha: "header_accepted lib fsb data ds h"
    and rest: "sizeof_object + sizeof_btree_header lib + sizeof_btree_footer lib \<le> ds"
      "accounting_chain lib ds h \<noteq> None" "btree_footer_initialize_ok lib"
      "decoded_footer lib data ds = Some f"
    by (simp_all add: footer_reached_def)
  show "result (libfsapfs_file_system_btree_read_data lib fsb (Some data) ds heap) =
           (if key_size f \<noteq> 0 \<or> value_size f \<noteq> 0
               \<or> number_of_entries f >
                    ucast ((ucast (entries_data_size h) :: size_t) div sizeof_btree_variable_size_entry)
            then Inl RUNTIME_ERROR_VALUE_OUT_OF_BOUNDS
            else result (resolve_entries lib fsb data ds (allocate (allocate heap)) h f))"
    unfolding read_data_header_accepted(1) [OF ha]
    by (rule check_layout_footer_reached(1) [OF rest])
  show "reads_of TocRecord (accesses (libfsapfs_file_system_btree_read_data lib fsb (Some data) ds heap)) =
           (if key_size f \<noteq> 0 \<or> value_size f \<noteq> 0
               \<or> number_of_entries f >
                    ucast ((ucast (entries_data_size h) :: size_t) div sizeof_btree_variable_size_entry)
            then 0
            else reads_of TocRecord (accesses (resolve_entries lib fsb data ds (allocate (allocate heap)) h f)))"
    unfolding read_data_header_accepted(3) [OF ha]
    by (rule check_layout_footer_reached(2) [OF rest])
qed

lemma check_layout_rejects:
  assumes "\<not> sizeof_object + sizeof_btree_header lib + sizeof_btree_footer lib \<le> ds
           \<or> accounting_chain lib ds h = None"
  shows "result (check_layout lib fsb data ds heap h) = Inl RUNTIME_ERROR_VALUE_OUT_OF_BOUNDS"
    and "accesses (check_layout lib fsb data ds heap h) = []"
  using assms unfolding check_layout_def Let_def
  by (auto simp add: not_le)

lemma number_of_entries_check:
  "(ucast (entries_data_size h) :: size_t) div sizeof_btree_variable_size_entry < number_of_entries f
   \<longleftrightarrow> unat (entries_data_size h) div 8 < unat (number_of_entries f)"
  by (simp add: word_less_nat_alt unat_div unat_ucast_16_64 sizeof_btree_variable_size_entry_def)

lemma resolve_entries_records:
  assumes "result (resolve_entries lib fsb data ds heap h f) = Inr ()"
  shows "reads_of TocRecord (accesses (resolve_entries lib fsb data ds heap h f))
           = unat (number_of_entries f)"
  using assms read_entries_records [of "debug_output lib" data ds
      "entries_data_offset h + ucast (sizeof_object + sizeof_btree_header lib)"
      "entries_data_size h" "ucast (ds - sizeof_btree_footer lib)" "number_of_entries f" 0
      "sizeof_object + sizeof_btree_header lib + ucast (entries_data_offset h)"]
  by (simp add: result_resolve_entries accesses_resolve_entries reads_of_def)

subsection \<open>Independence of the structure, the heap and the debug output\<close>

lemma resolve_entries_result_frame:
  "result (resolve_entries lib fsb data ds heap h f)
     = result (resolve_entries (lib\<lparr>debug_output := d\<rparr>) fsb' data ds heap' h f)"
  by (simp add: result_resolve_entries
      read_entries_debug [of "debug_output lib" _ _ _ _ _ _ _ _ d])


lemma read_footer_result_frame:
  "result (read_footer lib fsb data ds heap h)
     = result (read_footer (lib\<lparr>debug_output := d\<rparr>) fsb' data ds heap' h)"
  unfolding read_footer_def Let_def
  by (simp add:
      resolve_entries_result_frame [of lib fsb data ds "allocate heap" h _ d fsb' "allocate heap'"]
      split: option.splits)


lemma check_layout_result_frame:
  "result (check_layout lib fsb data ds heap h)
     = result (check_layout (lib\<lparr>debug_output := d\<rparr>) fsb' data ds heap' h)"
  unfolding check_layout_def Let_def accounting_chain_def
  by (simp add: read_footer_result_frame [of lib fsb data ds heap h d fsb' heap']
      split: option.splits)


lemma read_header_result_frame:
  "result (read_header lib fsb data ds heap)
     = result (read_header (lib\<lparr>debug_output := d\<rparr>) fsb' data ds heap')"
  unfolding read_header_def Let_def
  by (simp add: check_layout_result_frame [of lib fsb data ds "allocate heap" _ d fsb' "allocate heap'"]
      split: option.splits)


lemma read_object_result_frame:
  "result (read_object lib fsb data ds heap)
     = result (read_object (lib\<lparr>debug_output := d\<rparr>) fsb' data ds heap')"
  unfolding read_object_def Let_def
  by (simp add: read_header_result_frame [of lib fsb data ds heap d fsb' heap'])


lemma read_data_result_frame:
  "result (libfsapfs_file_system_btree_read_data lib (Some b) data ds heap)
     = result (libfsapfs_file_system_btree_read_data (lib\<lparr>debug_output := d\<rparr>) (Some b') data ds heap')"
  unfolding libfsapfs_file_system_btree_read_data_def
  by (simp add: read_object_result_frame [of lib "Some b" _ ds heap d "Some b'" heap']
      split: option.splits)


subsection \<open>The nodes of the instance\<close>

lemma short_node_header_accepted:
  "header_accepted example_library (Some []) short_node 79 (example_header 3)"
  by (simp add: header_accepted_def decoded_header_def short_node_def valid_node_def
      example_header_def example_defs)

lemma valid_node_decodes:
  "libfsapfs_file_system_btree_read_data example_library (Some []) (Some valid_node) 96 0 =
     \<lparr>result = Inr (),
      accesses = [Read ObjectField 24 4, Read ObjectField 28 4, Read HeaderSlice 32 24,
                  Read FooterSlice 80 16, Read TocRecord 56 8],
      btree = Some [], live = 0\<rparr>"
  by (simp add: valid_node_def example_defs stage_defs read_entries_unfold)

lemma two_entries_node_footer_reached:
  "footer_reached example_library (Some []) two_entries_node 96 (example_header 3) (example_footer 0 2)"
  by (simp add: footer_reached_def header_accepted_def decoded_header_def decoded_footer_def
      accounting_chain_def two_entries_node_def example_header_def example_footer_def example_defs)

lemma fixed_key_size_node_footer_reached:
  "footer_reached example_library (Some []) fixed_key_size_node 96 (example_header 3) (example_footer 1 1)"
  by (simp add: footer_reached_def header_accepted_def decoded_header_def decoded_footer_def
      accounting_chain_def fixed_key_size_node_def example_header_def example_footer_def example_defs)

lemma fixed_key_size_node_rejected:
  "result (libfsapfs_file_system_btree_read_data example_library (Some []) (Some fixed_key_size_node) 96 0)
     = Inl RUNTIME_ERROR_VALUE_OUT_OF_BOUNDS"
  by (simp add: fixed_key_size_node_def example_defs stage_defs)

lemma other_flags_node_unsupported:
  "unsupported_variant example_library other_flags_node 96"
  by (simp add: unsupported_variant_def decoded_header_def other_flags_node_def example_defs)

lemma other_flags_node_rejected:
  "result (libfsapfs_file_system_btree_read_data example_library (Some []) (Some other_flags_node) 96 3)
     = Inl RUNTIME_ERROR_UNSUPPORTED_VALUE"
  by (simp add: other_flags_node_def example_defs stage_defs)

lemma wrapped_key_node_accepted:
  "result (libfsapfs_file_system_btree_read_data example_library (Some []) (Some wrapped_key_node) 96 0)
     = Inr ()"
  by (simp add: wrapped_key_node_def example_defs stage_defs read_entries_unfold)

lemma wrapped_value_node_accepted:
  "result (libfsapfs_file_system_btree_read_data example_library (Some []) (Some wrapped_value_node) 96 0)
     = Inr ()"
  by (simp add: wrapped_value_node_def example_defs stage_defs read_entries_unfold)

lemma wrapped_key_node_header:
  "decoded_header example_library wrapped_key_node = Some (example_header 3)"
  by (simp add: decoded_header_def wrapped_key_node_def example_header_def example_defs)

lemma wrapped_key_node_record:
  "byte_stream_copy_to_uint16_little_endian wrapped_key_node 56 = 0xffff"
  "byte_stream_copy_to_uint16_little_endian wrapped_value_node 60 = 0xffff"
  by (simp_all add: wrapped_key_node_def wrapped_value_node_def example_defs)

lemma example_sizes:
  "sizeof_btree_header example_library = 24" "sizeof_btree_footer example_library = 16"
  by (simp_all add: example_library_def)

lemma example_library_no_debug: "example_library\<lparr>debug_output := False\<rparr> = example_library"
  by (simp add: example_library_def)

subsection \<open>The 16-bit offsets of the loop\<close>

lemma uint_ucast_64_16: "uint (ucast (x :: size_t) :: uint16_t) = uint x mod 65536"
  by (simp add: unsigned_ucast_eq take_bit_eq_mod)

lemma mod_65536_sum:
  "(k + ((e + (a mod 65536)) mod 65536 + s) mod 65536) mod 65536
     = ((a + e + s) + k) mod (65536::int)"
  by presburger

lemma uint_key_sum:
  "uint ((k :: uint16_t) + (e + ucast (x :: size_t) + s))
     = (uint k + ((uint e + uint x mod 65536) mod 65536 + uint s) mod 65536) mod 65536"
  by (simp only: uint_word_ariths uint_ucast_64_16) simp

lemma uint_value_difference:
  "uint ((ucast (x :: size_t) :: uint16_t) - v) = ((uint x mod 65536) - uint v) mod 65536"
  by (simp only: uint_word_ariths uint_ucast_64_16) simp

lemma key_block_offset_mod:
  assumes "sane_sizes lib"
  shows "uint (key_block_offset k
            (entries_data_offset h + ucast (sizeof_object + sizeof_btree_header lib))
            (entries_data_size h))
         = exact_key_offset lib h k mod 65536"
proof -
  have "unat (sizeof_object + sizeof_btree_header lib) = 32 + unat (sizeof_btree_header lib)"
    using assms by (simp add: to_nat sane_sizes_def sizeof_object_def)
  then have x: "uint (sizeof_object + sizeof_btree_header lib) = 32 + uint (sizeof_btree_header lib)"
    unfolding uint_nat by linarith
  show ?thesis
    unfolding key_block_offset_def exact_key_offset_def uint_key_sum mod_65536_sum x
    by (rule refl)
qed

lemma value_block_offset_mod:
  assumes "sizeof_btree_footer lib \<le> ds"
  shows "uint (value_block_offset (ucast (ds - sizeof_btree_footer lib)) v)
         = exact_value_offset lib ds v mod 65536"
proof -
  have "unat (ds - sizeof_btree_footer lib) = unat ds - unat (sizeof_btree_footer lib)"
    and "unat (sizeof_btree_footer lib) \<le> unat ds"
    using assms by (simp_all add: unat_sub word_le_nat_alt)
  then have x: "uint (ds - sizeof_btree_footer lib) = uint ds - uint (sizeof_btree_footer lib)"
    unfolding uint_nat by linarith
  show ?thesis
    unfolding value_block_offset_def exact_value_offset_def uint_value_difference x
    by (simp add: mod_diff_left_eq)
qed

lemma out_of_bounds_int:
  "out_of_bounds ds off sz \<longleftrightarrow> \<not> uint off + uint sz \<le> uint ds"
  unfolding out_of_bounds_iff uint_nat by linarith

lemma key_check_without_wrap:
  assumes "sane_sizes lib" and "exact_key_offset lib h k < 65536"
  shows "out_of_bounds ds
           (key_block_offset k
              (entries_data_offset h + ucast (sizeof_object + sizeof_btree_header lib))
              (entries_data_size h)) sz
         \<longleftrightarrow> \<not> exact_key_offset lib h k + uint sz \<le> uint ds"
proof -
  have "0 \<le> exact_key_offset lib h k"
    by (simp add: exact_key_offset_def)
  with assms(2) have "exact_key_offset lib h k mod 65536 = exact_key_offset lib h k"
    by simp
  then show ?thesis
    by (simp add: out_of_bounds_int key_block_offset_mod [OF assms(1)])
qed

lemma value_check_without_wrap:
  assumes "sizeof_btree_footer lib \<le> ds"
    and "0 \<le> exact_value_offset lib ds v" and "exact_value_offset lib ds v < 65536"
  shows "out_of_bounds ds (value_block_offset (ucast (ds - sizeof_btree_footer lib)) v) sz
         \<longleftrightarrow> \<not> exact_value_offset lib ds v + uint sz \<le> uint ds"
proof -
  from assms(2,3) have "exact_value_offset lib ds v mod 65536 = exact_value_offset lib ds v"
    by simp
  then show ?thesis
    by (simp add: out_of_bounds_int value_block_offset_mod [OF assms(1)])
qed

subsection \<open>The footer is read once\<close>

lemma read_entry_no_footer:
  "reads_of FooterSlice (snd (read_entry d data ds eo es fo off)) = 0"
  unfolding read_entry_def Let_def reads_of_def by auto

lemma read_entries_no_footer:
  "reads_of FooterSlice (snd (read_entries d data ds eo es fo n i off)) = 0"
proof (induction d data ds eo es fo n i off rule: read_entries.induct)
  case (1 d data ds eo es fo n i off)
  obtain r tr where re: "read_entry d data ds eo es fo off = (r, tr)"
    by fastforce
  have here: "reads_of FooterSlice tr = 0"
    using read_entry_no_footer [of d data ds eo es fo off] re by simp
  show ?case
  proof (cases "i < n")
    case False
    then show ?thesis
      by (simp add: read_entries_unfold)
  next
    case True
    show ?thesis
    proof (cases r)
      case (Inl e)
      with True re here show ?thesis
        by (simp add: read_entries_unfold)
    next
      case (Inr u)
      with True re here "1.IH" [OF True re [symmetric] Inr] show ?thesis
        by (simp add: read_entries_unfold reads_of_def)
    qed
  qed
qed

lemma read_footer_reads_footer:
  assumes "btree_footer_initialize_ok lib"
  shows "reads_of FooterSlice (accesses (read_footer lib fsb data ds heap h)) = 1"
proof -
  have "reads_of FooterSlice (accesses (resolve_entries lib fsb data ds heap' h f)) = 0"
    for heap' f
    by (simp add: accesses_resolve_entries read_entries_no_footer)
  then have "length (filter (\<lambda>a. region_of a = FooterSlice)
      (accesses (resolve_entries lib fsb data ds heap' h f))) = 0" for heap' f
    by (simp add: reads_of_def)
  with assms show ?thesis
    unfolding read_footer_def Let_def reads_of_def
    by (simp split: option.splits)
qed

lemma read_footer_not_allocated:
  assumes "\<not> btree_footer_initialize_ok lib"
  shows "result (read_footer lib fsb data ds heap h) = Inl RUNTIME_ERROR_INITIALIZE_FAILED"
  using assms unfolding read_footer_def by simp

lemma check_layout_passes:
  assumes "sizeof_object + sizeof_btree_header lib + sizeof_btree_footer lib \<le> ds"
    and "accounting_chain lib ds h \<noteq> None"
  shows "check_layout lib fsb data ds heap h = read_footer lib fsb data ds heap h"
proof -
  from assms(2) obtain r where "accounting_chain lib ds h = Some r"
    by (cases "accounting_chain lib ds h") simp_all
  with assms(1) show ?thesis
    unfolding check_layout_def Let_def by (simp add: leD)
qed

lemma chain_passes_iff:
  assumes "sane_sizes lib"
  shows "chain_passes lib ds h \<longleftrightarrow>
     sizeof_object + sizeof_btree_header lib + sizeof_btree_footer lib \<le> ds
     \<and> accounting_chain lib ds h \<noteq> None"
  using accounting_chain_passes [OF assms, of ds h] no_room_not_respected [OF assms, of ds h]
    chain_passes_respected [of lib ds h]
  by blast

lemma packed_node_header_accepted:
  "header_accepted example_library (Some []) packed_node 72 packed_header"
  by (simp add: header_accepted_def decoded_header_def packed_node_def packed_header_def
      example_defs)

lemma valid_node_header_accepted:
  "header_accepted example_library (Some []) valid_node 96 (example_header 3)"
  by (simp add: header_accepted_def decoded_header_def valid_node_def example_header_def
      example_defs)

lemma packed_node_rejected:
  "libfsapfs_file_system_btree_read_data example_library (Some []) (Some packed_node) 72 0 =
     \<lparr>result = Inl RUNTIME_ERROR_VALUE_OUT_OF_BOUNDS,
      accesses = [Read ObjectField 24 4, Read ObjectField 28 4, Read HeaderSlice 32 24],
      btree = Some [], live = 0\<rparr>"
  by (simp add: packed_node_def example_defs stage_defs)

section \<open>The claims of the specification\<close>

text \<open>
  C4: for every buffer and every size, whatever the offsets and sizes in the buffer
  say, every access of \<^verbatim>\<open>libfsapfs_file_system_btree_read_data\<close> to \<^verbatim>\<open>data\<close>,
  the fields of the object header, the slices of the B-tree header and footer, each
  8-byte record of the table of contents and, with debug output, each key and value
  range, ends at or before \<^verbatim>\<open>data_size\<close>.
\<close>

theorem read_data_reads_inside_buffer:
  assumes "sane_sizes lib"
  shows "list_all (in_bounds (unat data_size))
           (accesses (libfsapfs_file_system_btree_read_data lib file_system_btree data data_size heap))"
  using assms by (rule read_data_in_bounds)

theorem read_data_reads_inside_buffer_witness:
  "sane_sizes (example_library\<lparr>debug_output := True\<rparr>)
   \<and> list_all (in_bounds 96)
       (accesses (libfsapfs_file_system_btree_read_data (example_library\<lparr>debug_output := True\<rparr>)
          (Some []) (Some valid_node) 96 0))"
proof -
  have sane: "sane_sizes (example_library\<lparr>debug_output := True\<rparr>)"
    by (simp add: sane_sizes_debug sane_example_library)
  show ?thesis
    using sane read_data_reads_inside_buffer [OF sane, of 96 "Some []" "Some valid_node" 0]
    by simp
qed


text \<open>
  C1, as the specification states it, fails: the chain is not one of four checks that
  the value does not exceed what remains. In the node below nothing remains between the
  header and the footer and the four values are 0, so none of them exceeds what remains;
  the test of line 496 rejects it, with the out-of-bounds error and before the footer is
  read.
\<close>

theorem packed_node_respects_chain_and_is_rejected:
  "header_accepted example_library (Some []) packed_node 72 packed_header
   \<and> chain_respected example_library 72 packed_header
   \<and> result (libfsapfs_file_system_btree_read_data example_library (Some []) (Some packed_node) 72 0)
       = Inl RUNTIME_ERROR_VALUE_OUT_OF_BOUNDS
   \<and> reads_of FooterSlice
       (accesses (libfsapfs_file_system_btree_read_data example_library (Some []) (Some packed_node) 72 0)) = 0"
proof -
  have "chain_respected example_library 72 packed_header"
    by (simp add: chain_respected_def remaining_space_def packed_header_def example_sizes)
  then show ?thesis
    using packed_node_header_accepted by (simp add: packed_node_rejected reads_of_def)
qed

text \<open>
  C1, amended: once the B-tree header is decoded, the space between the header and the
  footer is \<^verbatim>\<open>data_size\<close> minus the sizes of the object header and the B-tree
  header minus the size of the footer, and the entries offset, the entries size, the
  unused offset and the unused size are subtracted from it in this order, each after a
  check: the two offsets must be less than what remains, the two sizes at most what
  remains. The call goes on to the footer exactly when the four checks pass; when one of
  them fails, the call fails with the out-of-bounds error, and it has read neither the
  footer nor any record of the table of contents.
\<close>

theorem accounting_chain_decides_footer_read:
  assumes "sane_sizes lib"
    and "header_accepted lib file_system_btree data data_size h"
  shows "(chain_passes lib data_size h \<longleftrightarrow>
            (if btree_footer_initialize_ok lib
             then reads_of FooterSlice
                    (accesses (libfsapfs_file_system_btree_read_data lib file_system_btree (Some data) data_size heap)) = 1
             else result (libfsapfs_file_system_btree_read_data lib file_system_btree (Some data) data_size heap)
                    = Inl RUNTIME_ERROR_INITIALIZE_FAILED))
         \<and> (\<not> chain_passes lib data_size h \<longrightarrow>
              result (libfsapfs_file_system_btree_read_data lib file_system_btree (Some data) data_size heap)
                = Inl RUNTIME_ERROR_VALUE_OUT_OF_BOUNDS
              \<and> reads_of FooterSlice
                  (accesses (libfsapfs_file_system_btree_read_data lib file_system_btree (Some data) data_size heap)) = 0
              \<and> reads_of TocRecord
                  (accesses (libfsapfs_file_system_btree_read_data lib file_system_btree (Some data) data_size heap)) = 0)"
proof (cases "chain_passes lib data_size h")
  case True
  then have "check_layout lib file_system_btree data data_size (allocate heap) h
      = read_footer lib file_system_btree data data_size (allocate heap) h"
    using chain_passes_iff [OF assms(1), of data_size h] by (simp add: check_layout_passes)
  with True show ?thesis
    by (simp add: read_data_header_accepted [OF assms(2)] read_footer_reads_footer
        read_footer_not_allocated)
next
  case False
  then have "\<not> sizeof_object + sizeof_btree_header lib + sizeof_btree_footer lib \<le> data_size
        \<or> accounting_chain lib data_size h = None"
    using chain_passes_iff [OF assms(1), of data_size h] by blast
  then have "result (check_layout lib file_system_btree data data_size (allocate heap) h)
               = Inl RUNTIME_ERROR_VALUE_OUT_OF_BOUNDS"
    and "accesses (check_layout lib file_system_btree data data_size (allocate heap) h) = []"
    by (rule check_layout_rejects)+
  with False show ?thesis
    by (simp add: read_data_header_accepted [OF assms(2)])
qed

theorem accounting_chain_decides_footer_read_witness:
  "sane_sizes example_library
   \<and> header_accepted example_library (Some []) valid_node 96 (example_header 3)
   \<and> chain_passes example_library 96 (example_header 3)
   \<and> reads_of FooterSlice
       (accesses (libfsapfs_file_system_btree_read_data example_library (Some []) (Some valid_node) 96 0)) = 1
   \<and> header_accepted example_library (Some []) packed_node 72 packed_header
   \<and> \<not> chain_passes example_library 72 packed_header
   \<and> result (libfsapfs_file_system_btree_read_data example_library (Some []) (Some packed_node) 72 0)
       = Inl RUNTIME_ERROR_VALUE_OUT_OF_BOUNDS
   \<and> reads_of FooterSlice
       (accesses (libfsapfs_file_system_btree_read_data example_library (Some []) (Some packed_node) 72 0)) = 0
   \<and> reads_of TocRecord
       (accesses (libfsapfs_file_system_btree_read_data example_library (Some []) (Some packed_node) 72 0)) = 0
   \<and> header_accepted example_library (Some []) short_node 79 (example_header 3)
   \<and> \<not> chain_passes example_library 79 (example_header 3)
   \<and> result (libfsapfs_file_system_btree_read_data example_library (Some []) (Some short_node) 79 0)
       = Inl RUNTIME_ERROR_VALUE_OUT_OF_BOUNDS"
proof -
  have passes: "chain_passes example_library 96 (example_header 3)"
    by (simp add: chain_passes_def remaining_space_def example_header_def example_sizes)
  have packed: "\<not> chain_passes example_library 72 packed_header"
    by (simp add: chain_passes_def remaining_space_def packed_header_def example_sizes)
  have short: "\<not> chain_passes example_library 79 (example_header 3)"
    by (simp add: chain_passes_def remaining_space_def example_header_def example_sizes)
  have init: "btree_footer_initialize_ok example_library"
    by (simp add: example_library_def)
  show ?thesis
    using sane_example_library valid_node_header_accepted packed_node_header_accepted
      short_node_header_accepted passes packed short init
      accounting_chain_decides_footer_read [OF sane_example_library valid_node_header_accepted, of 0]
      accounting_chain_decides_footer_read [OF sane_example_library packed_node_header_accepted, of 0]
      accounting_chain_decides_footer_read [OF sane_example_library short_node_header_accepted, of 0]
    by simp
qed

text \<open>
  C5: for every buffer that the call accepts, the sizes of the object header and the
  B-tree header, the entries offset and size, the unused offset and size of the decoded
  header and the size of the footer add up to at most \<^verbatim>\<open>data_size\<close>.
\<close>

theorem accepted_layout_fits:
  assumes "sane_sizes lib"
    and "result (libfsapfs_file_system_btree_read_data lib file_system_btree data data_size heap) = Inr ()"
  shows "\<exists>bytes h. data = Some bytes \<and> decoded_header lib bytes = Some h
           \<and> 32 + unat (sizeof_btree_header lib) + unat (entries_data_offset h)
               + unat (entries_data_size h) + unat (unused_data_offset h)
               + unat (unused_data_size h) + unat (sizeof_btree_footer lib) \<le> unat data_size"
proof -
  from read_data_success_footer [OF assms(2)] obtain bytes h f
    where data: "data = Some bytes" and fr: "footer_reached lib file_system_btree bytes data_size h f"
    by blast
  from fr have dec: "decoded_header lib bytes = Some h"
    and room: "\<not> data_size < sizeof_object + sizeof_btree_header lib + sizeof_btree_footer lib"
    and "accounting_chain lib data_size h \<noteq> None"
    by (simp_all add: footer_reached_def header_accepted_def not_less)
  then obtain r where chain: "accounting_chain lib data_size h = Some r"
    by (cases "accounting_chain lib data_size h") simp_all
  from accounting_chain_Some [OF assms(1) room chain] data dec show ?thesis
    by blast
qed

theorem accepted_layout_fits_witness:
  "sane_sizes example_library
   \<and> result (libfsapfs_file_system_btree_read_data example_library (Some []) (Some valid_node) 96 0) = Inr ()
   \<and> (\<exists>h. decoded_header example_library valid_node = Some h
           \<and> 32 + unat (sizeof_btree_header example_library) + unat (entries_data_offset h)
               + unat (entries_data_size h) + unat (unused_data_offset h)
               + unat (unused_data_size h) + unat (sizeof_btree_footer example_library) \<le> 96)"
proof -
  have ok: "result (libfsapfs_file_system_btree_read_data example_library (Some []) (Some valid_node) 96 0) = Inr ()"
    by (simp add: valid_node_decodes)
  show ?thesis
    using sane_example_library ok accepted_layout_fits [OF sane_example_library ok]
    by simp
qed

text \<open>
  C6: a footer whose number of entries exceeds the entries size divided by 8, the size
  of a record of the table of contents, is rejected with the out-of-bounds error; so
  for every buffer that the call accepts, 8 times the number of entries is at most the
  entries size, and exactly that many records of the table of contents are read.
\<close>

theorem entry_count_checked:
  "(footer_reached lib file_system_btree bytes data_size h f
      \<longrightarrow> unat (entries_data_size h) div 8 < unat (number_of_entries f)
      \<longrightarrow> result (libfsapfs_file_system_btree_read_data lib file_system_btree (Some bytes) data_size heap)
            = Inl RUNTIME_ERROR_VALUE_OUT_OF_BOUNDS)
   \<and> (result (libfsapfs_file_system_btree_read_data lib file_system_btree data data_size heap) = Inr ()
      \<longrightarrow> (\<exists>bytes' h' f'. data = Some bytes'
             \<and> footer_reached lib file_system_btree bytes' data_size h' f'
             \<and> unat (number_of_entries f') * 8 \<le> unat (entries_data_size h')
             \<and> reads_of TocRecord
                 (accesses (libfsapfs_file_system_btree_read_data lib file_system_btree data data_size heap))
                 = unat (number_of_entries f')))"
proof (intro conjI impI)
  assume "footer_reached lib file_system_btree bytes data_size h f"
    and "unat (entries_data_size h) div 8 < unat (number_of_entries f)"
  then show "result (libfsapfs_file_system_btree_read_data lib file_system_btree (Some bytes) data_size heap)
            = Inl RUNTIME_ERROR_VALUE_OUT_OF_BOUNDS"
    by (simp add: read_data_footer_reached number_of_entries_check)
next
  assume ok: "result (libfsapfs_file_system_btree_read_data lib file_system_btree data data_size heap) = Inr ()"
  from read_data_success_footer [OF ok] obtain bytes' h' f'
    where data: "data = Some bytes'"
      and fr: "footer_reached lib file_system_btree bytes' data_size h' f'"
    by blast
  from ok have pass: "\<not> unat (entries_data_size h') div 8 < unat (number_of_entries f')"
    and res: "result (resolve_entries lib file_system_btree bytes' data_size (allocate (allocate heap)) h' f') = Inr ()"
    and same: "reads_of TocRecord
        (accesses (libfsapfs_file_system_btree_read_data lib file_system_btree data data_size heap))
      = reads_of TocRecord
          (accesses (resolve_entries lib file_system_btree bytes' data_size (allocate (allocate heap)) h' f'))"
    unfolding data read_data_footer_reached [OF fr]
    by (simp_all add: number_of_entries_check split: if_splits)
  from pass have "unat (number_of_entries f') * 8 \<le> unat (entries_data_size h')"
    by arith
  with data fr same resolve_entries_records [OF res]
  show "\<exists>bytes' h' f'. data = Some bytes'
             \<and> footer_reached lib file_system_btree bytes' data_size h' f'
             \<and> unat (number_of_entries f') * 8 \<le> unat (entries_data_size h')
             \<and> reads_of TocRecord
                 (accesses (libfsapfs_file_system_btree_read_data lib file_system_btree data data_size heap))
                 = unat (number_of_entries f')"
    by auto
qed

theorem entry_count_checked_witness:
  "footer_reached example_library (Some []) two_entries_node 96 (example_header 3) (example_footer 0 2)
   \<and> unat (entries_data_size (example_header 3)) div 8 < unat (number_of_entries (example_footer 0 2))
   \<and> result (libfsapfs_file_system_btree_read_data example_library (Some []) (Some two_entries_node) 96 0)
       = Inl RUNTIME_ERROR_VALUE_OUT_OF_BOUNDS
   \<and> result (libfsapfs_file_system_btree_read_data example_library (Some []) (Some valid_node) 96 0) = Inr ()
   \<and> (\<exists>h' f'. footer_reached example_library (Some []) valid_node 96 h' f'
         \<and> unat (number_of_entries f') * 8 \<le> unat (entries_data_size h')
         \<and> reads_of TocRecord
             (accesses (libfsapfs_file_system_btree_read_data example_library (Some []) (Some valid_node) 96 0))
             = unat (number_of_entries f'))"
proof -
  have many: "unat (entries_data_size (example_header 3)) div 8
      < unat (number_of_entries (example_footer 0 2))"
    by (simp add: example_header_def example_footer_def)
  have ok: "result (libfsapfs_file_system_btree_read_data example_library (Some []) (Some valid_node) 96 0) = Inr ()"
    by (simp add: valid_node_decodes)
  show ?thesis
    using two_entries_node_footer_reached many ok
      entry_count_checked [where lib = example_library and file_system_btree = "Some []"
        and bytes = two_entries_node and data_size = 96 and h = "example_header 3"
        and f = "example_footer 0 2" and heap = 0 and data = "Some valid_node"]
    by simp
qed

text \<open>
  C7, as the specification states it, fails: the footer of the node below has the key
  size 1, and the call fails with the out-of-bounds error, not with the
  unsupported-value error.
\<close>

theorem nonzero_footer_key_size_is_out_of_bounds:
  "decoded_footer example_library fixed_key_size_node 96 = Some (example_footer 1 1)
   \<and> key_size (example_footer 1 1) \<noteq> 0
   \<and> result (libfsapfs_file_system_btree_read_data example_library (Some []) (Some fixed_key_size_node) 96 0)
       = Inl RUNTIME_ERROR_VALUE_OUT_OF_BOUNDS
   \<and> result (libfsapfs_file_system_btree_read_data example_library (Some []) (Some fixed_key_size_node) 96 0)
       \<noteq> Inl RUNTIME_ERROR_UNSUPPORTED_VALUE"
  using fixed_key_size_node_footer_reached
  by (simp add: fixed_key_size_node_rejected footer_reached_def example_footer_def)

text \<open>
  C7, amended: the call fails with the unsupported-value error exactly when the object
  type is not 2, or the object subtype is not \<^verbatim>\<open>0xe\<close>, or the header is decoded and
  its flags are not \<^verbatim>\<open>0x0003\<close>; a footer with a key size or a value size other than
  0 makes it fail with the out-of-bounds error.
\<close>

theorem unsupported_value_for_type_subtype_flags:
  assumes "file_system_btree \<noteq> None" and "sizeof_object \<le> data_size" and "data_size \<le> SSIZE_MAX"
  shows "(result (libfsapfs_file_system_btree_read_data lib file_system_btree (Some data) data_size heap)
            = Inl RUNTIME_ERROR_UNSUPPORTED_VALUE
          \<longleftrightarrow> unsupported_variant lib data data_size)
         \<and> (footer_reached lib file_system_btree data data_size h f
            \<longrightarrow> key_size f \<noteq> 0 \<or> value_size f \<noteq> 0
            \<longrightarrow> result (libfsapfs_file_system_btree_read_data lib file_system_btree (Some data) data_size heap)
                  = Inl RUNTIME_ERROR_VALUE_OUT_OF_BOUNDS)"
  using read_data_unsupported [OF assms]
  by (auto simp add: read_data_footer_reached)

theorem unsupported_value_for_type_subtype_flags_witness:
  "Some [] \<noteq> (None :: byte list option) \<and> sizeof_object \<le> 96 \<and> 96 \<le> SSIZE_MAX
   \<and> unsupported_variant example_library other_flags_node 96
   \<and> result (libfsapfs_file_system_btree_read_data example_library (Some []) (Some other_flags_node) 96 3)
       = Inl RUNTIME_ERROR_UNSUPPORTED_VALUE
   \<and> footer_reached example_library (Some []) fixed_key_size_node 96 (example_header 3) (example_footer 1 1)
   \<and> key_size (example_footer 1 1) \<noteq> 0
   \<and> result (libfsapfs_file_system_btree_read_data example_library (Some []) (Some fixed_key_size_node) 96 0)
       = Inl RUNTIME_ERROR_VALUE_OUT_OF_BOUNDS"
proof -
  have args: "Some [] \<noteq> (None :: byte list option)" "sizeof_object \<le> 96" "96 \<le> SSIZE_MAX"
    by (simp_all add: sizeof_object_def SSIZE_MAX_def)
  have ks: "key_size (example_footer 1 1) \<noteq> 0"
    by (simp add: example_footer_def)
  show ?thesis
    using args ks other_flags_node_unsupported fixed_key_size_node_footer_reached
      unsupported_value_for_type_subtype_flags [OF args, of example_library other_flags_node 3]
      unsupported_value_for_type_subtype_flags [OF args, of example_library fixed_key_size_node 0
        "example_header 3" "example_footer 1 1"]
    by simp
qed

text \<open>
  C8: on every failing path of \<^verbatim>\<open>libfsapfs_file_system_btree_read_data\<close>, whichever
  stage fails, the B-tree header and footer allocated during the call are released
  before the return, and nothing is stored in the structure of the caller: no partial
  node and no entry resolved before the failure is kept.
\<close>

theorem failure_releases_and_stores_nothing:
  assumes "result (libfsapfs_file_system_btree_read_data lib file_system_btree data data_size heap) = Inl e"
  shows "live (libfsapfs_file_system_btree_read_data lib file_system_btree data data_size heap) = heap
         \<and> btree (libfsapfs_file_system_btree_read_data lib file_system_btree data data_size heap)
             = file_system_btree"
  by (simp add: live_read_data btree_read_data)

theorem failure_releases_and_stores_nothing_witness:
  "result (libfsapfs_file_system_btree_read_data example_library (Some []) (Some other_flags_node) 96 3)
     = Inl RUNTIME_ERROR_UNSUPPORTED_VALUE
   \<and> live (libfsapfs_file_system_btree_read_data example_library (Some []) (Some other_flags_node) 96 3) = 3
   \<and> btree (libfsapfs_file_system_btree_read_data example_library (Some []) (Some other_flags_node) 96 3)
       = Some []"
  using other_flags_node_rejected
    failure_releases_and_stores_nothing [OF other_flags_node_rejected]
  by simp



text \<open>
  C10: \<^verbatim>\<open>libfsapfs_file_system_btree_read_data\<close> leaves the structure behind
  \<^verbatim>\<open>file_system_btree\<close> as it finds it on every path; a structure that
  \<^verbatim>\<open>libfsapfs_file_system_btree_initialize\<close> has just cleared is still all zero
  after the call, also when the call succeeds.
\<close>

theorem read_data_leaves_structure_unchanged:
  "btree (libfsapfs_file_system_btree_read_data lib file_system_btree data data_size heap)
     = file_system_btree
   \<and> (libfsapfs_file_system_btree_initialize n True (Some None) = (Inr (), Some file_system_btree)
      \<longrightarrow> btree (libfsapfs_file_system_btree_read_data lib file_system_btree data data_size heap)
            = Some (replicate n 0))"
  by (simp add: btree_read_data libfsapfs_file_system_btree_initialize_def)

theorem read_data_leaves_structure_unchanged_witness:
  "libfsapfs_file_system_btree_initialize 4 True (Some None) = (Inr (), Some (Some [0, 0, 0, 0]))
   \<and> result (libfsapfs_file_system_btree_read_data example_library (Some [0, 0, 0, 0]) (Some valid_node) 96 0)
       = Inr ()
   \<and> btree (libfsapfs_file_system_btree_read_data example_library (Some [0, 0, 0, 0]) (Some valid_node) 96 0)
       = Some [0, 0, 0, 0]"
proof -
  have init: "libfsapfs_file_system_btree_initialize 4 True (Some None) = (Inr (), Some (Some [0, 0, 0, 0]))"
    by (simp add: libfsapfs_file_system_btree_initialize_def numeral_eq_Suc)
  have ok: "result (libfsapfs_file_system_btree_read_data example_library (Some [0, 0, 0, 0]) (Some valid_node) 96 0)
       = Inr ()"
    using read_data_result_frame [of example_library "[]" "Some valid_node" 96 0 False "[0, 0, 0, 0]" 0]
    by (simp add: valid_node_decodes example_library_no_debug)
  show ?thesis
    using init ok
      read_data_leaves_structure_unchanged [of example_library "Some [0, 0, 0, 0]" "Some valid_node" 96 0 4]
    by simp
qed

text \<open>
  C2 asks for the key offset in the buffer as an exact sum that is checked against
  \<^verbatim>\<open>data_size\<close>. The record of the node below has the key offset \<^verbatim>\<open>0xffff\<close>: the
  exact sum is 65599, beyond the 96 bytes of the node, the \<^verbatim>\<open>uint16_t\<close> sum of line
  672 is 63, and the call succeeds.
\<close>

theorem wrapped_key_offset_is_accepted:
  "decoded_header example_library wrapped_key_node = Some (example_header 3)
   \<and> byte_stream_copy_to_uint16_little_endian wrapped_key_node 56 = 0xffff
   \<and> exact_key_offset example_library (example_header 3) 0xffff = 65599
   \<and> key_block_offset 0xffff
        (entries_data_offset (example_header 3) + ucast (sizeof_object + sizeof_btree_header example_library))
        (entries_data_size (example_header 3)) = 63
   \<and> result (libfsapfs_file_system_btree_read_data example_library (Some []) (Some wrapped_key_node) 96 0)
       = Inr ()"
  by (simp add: wrapped_key_node_header wrapped_key_node_record wrapped_key_node_accepted
      exact_key_offset_def key_block_offset_def example_header_def example_sizes sizeof_object_def)

text \<open>
  C3 asks for the value offset in the buffer as an exact difference that is checked to
  be non-negative. The record of the node below has the value offset \<^verbatim>\<open>0xffff\<close>:
  the exact difference is negative, the \<^verbatim>\<open>uint16_t\<close> difference of line 699 is 81,
  and the call succeeds. For a buffer of 65636 bytes the footer starts at 65620, and
  the \<^verbatim>\<open>uint16_t\<close> of line 612 holds 84.
\<close>

theorem wrapped_value_offset_is_accepted:
  "byte_stream_copy_to_uint16_little_endian wrapped_value_node 60 = 0xffff
   \<and> exact_value_offset example_library 96 0xffff = - 65455
   \<and> value_block_offset (ucast ((96 :: size_t) - sizeof_btree_footer example_library)) 0xffff = 81
   \<and> result (libfsapfs_file_system_btree_read_data example_library (Some []) (Some wrapped_value_node) 96 0)
       = Inr ()
   \<and> exact_value_offset example_library 65636 0 = 65620
   \<and> value_block_offset (ucast ((65636 :: size_t) - sizeof_btree_footer example_library)) 0 = 84"
  by (simp add: wrapped_key_node_record wrapped_value_node_accepted
      exact_value_offset_def value_block_offset_def example_sizes)

end
